theory Spec2Isabelle
  imports Complex_Main "HOL-Library.Word" "HOL-Library.Signed_Division"
begin

unbundle bit_operations_syntax

section \<open>The expression engine of BeebAsm (expression.cpp)\<close>

text \<open>
  A shallow embedding of \<^verbatim>\<open>src/expression.cpp\<close>: the value stack and operator stack
  evaluator, its operator tables and its handlers.

  Conventions of the embedding.
  \<^item> A C++ \<^verbatim>\<open>double\<close> is a \<^typ>\<open>real\<close>: the finite doubles, with exact arithmetic.
    Rounding, infinities and NaN are outside the model.
  \<^item> A C++ \<^verbatim>\<open>int\<close> or \<^verbatim>\<open>unsigned int\<close> is a \<^typ>\<open>32 word\<close>, read with \<^const>\<open>sint\<close>
    or \<^const>\<open>uint\<close>.
  \<^item> An exception is a value of type \<open>error\<close>; every function that can throw returns
    \<open>(error + 'a) \<times> LineParser\<close>, the parser as it is when the function returns or throws.
    The position that each exception carries (line and column) is not kept.
  \<^item> The two stacks are lists whose head is the top of the stack: the list is the live
    part \<^verbatim>\<open>[0, ptr)\<close> of the array, and the stack pointer is its length.
  \<^item> The process-wide \<^verbatim>\<open>errno\<close> and the state of the random number generator are fields
    of the parser state, because handlers read and write them.
  \<^item> Everything the file calls but does not define (the line driver, the symbol table,
    the numeric literal lexer, the C library) is a field of the record \<open>Externals\<close>.
\<close>

subsection \<open>Data\<close>

datatype Value = NumberValue real | StringValue string

datatype error =
    InvalidCharacter | MissingQuote | SymbolNotDefined | EmptyExpression
  | MismatchedParentheses | ParameterCount | ExpressionTooComplex | TypeMismatch
  | MissingValue | DivisionByZero | NumberTooBig | IllegalOperation
  | OutOfIntegerRange | TimeResultTooBig
  | AssertionFailed \<comment> \<open>a failed \<^verbatim>\<open>assert\<close>: the program aborts\<close>

datatype errno_code = ENONE | EDOM | ERANGE | EOTHER

datatype Handler =
    H_EvalPower | H_EvalMultiply | H_EvalDivide | H_EvalMod | H_EvalDiv
  | H_EvalShiftLeft | H_EvalShiftRight | H_EvalAdd | H_EvalSubtract
  | H_EvalEqual | H_EvalNotEqual | H_EvalLessThanOrEqual | H_EvalMoreThanOrEqual
  | H_EvalLessThan | H_EvalMoreThan | H_EvalAnd | H_EvalOr | H_EvalEor
  | H_EvalNegate | H_EvalPosate | H_EvalHi | H_EvalLo
  | H_EvalSin | H_EvalCos | H_EvalTan | H_EvalArcSin | H_EvalArcCos | H_EvalArcTan
  | H_EvalSqrt | H_EvalDegToRad | H_EvalRadToDeg | H_EvalInt | H_EvalAbs | H_EvalSgn
  | H_EvalRnd | H_EvalNot | H_EvalLog | H_EvalLn | H_EvalExp | H_EvalTime
  | H_EvalStr | H_EvalStrHex | H_EvalVal | H_EvalEval | H_EvalLen | H_EvalChr
  | H_EvalAsc | H_EvalMid | H_EvalLeft | H_EvalRight | H_EvalString
  | H_EvalUpper | H_EvalLower

text \<open>A row of an operator table; \<open>handler = None\<close> is the \<^verbatim>\<open>NULL\<close> of the special cases.\<close>

record Operator =
  token :: string
  precedence :: int
  parameterCount :: int
  handler :: "Handler option"

record LineParser =
  m_line :: string
  m_column :: nat
  m_valueStack :: "Value list"
  m_operatorStack :: "Operator list"
  errno :: errno_code
  rand_state :: nat

type_synonym 'a result = "(error + 'a) \<times> LineParser"

datatype TYPE_enum = VALUE_OR_UNARY | BINARY

text \<open>
  The collaborators of the file. A C library function returns its value and the value it
  stores in \<^verbatim>\<open>errno\<close>, if it stores one.
\<close>

record Externals =
  MAX_VALUES :: nat
  MAX_OPERATORS :: nat
  AdvanceAndCheckEndOfSubStatement :: "bool \<Rightarrow> string \<Rightarrow> nat \<Rightarrow> bool \<times> nat"
  ParseNumeric :: "string \<Rightarrow> nat \<Rightarrow> (real \<times> nat) option"
  GetSymbolName :: "string \<Rightarrow> nat \<Rightarrow> string \<times> nat"
  GetSymbolValue :: "string \<Rightarrow> Value option"
  GetPC :: int
  IsFirstPass :: bool
  SkipExpression :: "int \<Rightarrow> bool \<Rightarrow> string \<Rightarrow> nat \<Rightarrow> nat"
  strftime_assembly_time :: "string \<Rightarrow> string"
  PrintNumber :: "real \<Rightarrow> string"
  beebasm_rand :: "nat \<Rightarrow> nat \<times> nat"
  BEEBASM_RAND_MAX :: nat
  c_pow :: "real \<Rightarrow> real \<Rightarrow> real \<times> errno_code option"
  c_sin :: "real \<Rightarrow> real \<times> errno_code option"
  c_cos :: "real \<Rightarrow> real \<times> errno_code option"
  c_tan :: "real \<Rightarrow> real \<times> errno_code option"
  c_asin :: "real \<Rightarrow> real \<times> errno_code option"
  c_acos :: "real \<Rightarrow> real \<times> errno_code option"
  c_atan :: "real \<Rightarrow> real \<times> errno_code option"
  c_log10 :: "real \<Rightarrow> real \<times> errno_code option"
  c_log :: "real \<Rightarrow> real \<times> errno_code option"
  c_exp :: "real \<Rightarrow> real \<times> errno_code option"
  c_sqrt :: "real \<Rightarrow> real \<times> errno_code option"
  c_strtod :: "string \<Rightarrow> real \<times> errno_code option"

definition set_errno :: "errno_code option \<Rightarrow> LineParser \<Rightarrow> LineParser" where
  "set_errno e s = (case e of None \<Rightarrow> s | Some c \<Rightarrow> s\<lparr>errno := c\<rparr>)"

subsection \<open>The classes Value and String, and the Ascii helpers\<close>

text \<open>
  Modelled from the spec: \<^verbatim>\<open>Ascii::ToUpper\<close>, \<^verbatim>\<open>Ascii::IsAlpha\<close> (stringutils.h is not
  among the sources): ASCII only, locale independent.
\<close>

definition IsAlpha :: "char \<Rightarrow> bool" where
  "IsAlpha c = ((65 \<le> (of_char c :: nat) \<and> (of_char c :: nat) \<le> 90)
              \<or> (97 \<le> (of_char c :: nat) \<and> (of_char c :: nat) \<le> 122))"

definition ToUpper :: "char \<Rightarrow> char" where
  "ToUpper c = (if 97 \<le> (of_char c :: nat) \<and> (of_char c :: nat) \<le> 122
                then char_of ((of_char c :: nat) - 32) else c)"

definition ToLower :: "char \<Rightarrow> char" where
  "ToLower c = (if 65 \<le> (of_char c :: nat) \<and> (of_char c :: nat) \<le> 90
                then char_of ((of_char c :: nat) + 32) else c)"

text \<open>
  Modelled from the spec: the class \<^verbatim>\<open>String\<close> (its header is not among the sources):
  \<open>substring(offset, length)\<close>, clamped at the end of the text; \<open>repeat(n)\<close>; ASCII case
  mapping.
\<close>

definition SubString :: "string \<Rightarrow> nat \<Rightarrow> nat \<Rightarrow> string" where
  "SubString text index len = take len (drop index text)"

definition Repeat :: "string \<Rightarrow> nat \<Rightarrow> string" where
  "Repeat text n = concat (replicate n text)"

definition Upper :: "string \<Rightarrow> string" where
  "Upper text = map ToUpper text"

definition Lower :: "string \<Rightarrow> string" where
  "Lower text = map ToLower text"

text \<open>
  Modelled from the spec: \<^verbatim>\<open>Value::Compare\<close> (value.h is not among the sources):
  \<open>compare(a, b)\<close> is \<open>-1\<close>, \<open>0\<close> or \<open>+1\<close>; it requires equal tags and fails with
  \<open>TypeMismatch\<close> otherwise; numbers compare naturally, strings lexicographically over
  unsigned bytes.
\<close>

fun CompareBytes :: "string \<Rightarrow> string \<Rightarrow> int" where
  "CompareBytes [] [] = 0"
| "CompareBytes [] (d # ds) = - 1"
| "CompareBytes (c # cs) [] = 1"
| "CompareBytes (c # cs) (d # ds) =
     (if (of_char c :: nat) < of_char d then - 1
      else if (of_char d :: nat) < of_char c then 1
      else CompareBytes cs ds)"

fun Compare :: "Value \<Rightarrow> Value \<Rightarrow> error + int" where
  "Compare (NumberValue x) (NumberValue y) = Inr (if x < y then - 1 else if x = y then 0 else 1)"
| "Compare (StringValue a) (StringValue b) = Inr (CompareBytes a b)"
| "Compare (NumberValue x) (StringValue b) = Inl TypeMismatch"
| "Compare (StringValue a) (NumberValue y) = Inl TypeMismatch"

definition IsNumber :: "Value \<Rightarrow> bool" where
  "IsNumber v = (case v of NumberValue x \<Rightarrow> True | StringValue a \<Rightarrow> False)"

definition IsString :: "Value \<Rightarrow> bool" where
  "IsString v = (case v of NumberValue x \<Rightarrow> False | StringValue a \<Rightarrow> True)"

definition GetNumber :: "Value \<Rightarrow> real" where
  "GetNumber v = (case v of NumberValue x \<Rightarrow> x | StringValue a \<Rightarrow> 0)"

definition GetString :: "Value \<Rightarrow> string" where
  "GetString v = (case v of NumberValue x \<Rightarrow> [] | StringValue a \<Rightarrow> a)"

subsection \<open>Integer coercion\<close>

definition INT_MIN :: int where "INT_MIN = - 2147483648"
definition INT_MAX :: int where "INT_MAX = 2147483647"
definition UINT_MAX :: int where "UINT_MAX = 4294967295"

text \<open>The conversion of a double to an integer type discards the fraction.\<close>

definition trunc_toward_zero :: "real \<Rightarrow> int" where
  "trunc_toward_zero x = (if x < 0 then \<lceil>x\<rceil> else \<lfloor>x\<rfloor>)"

definition static_cast_int :: "real \<Rightarrow> 32 word" where
  "static_cast_int x = word_of_int (trunc_toward_zero x)"

definition static_cast_unsigned :: "real \<Rightarrow> 32 word" where
  "static_cast_unsigned x = word_of_int (trunc_toward_zero x)"

text \<open>\<^verbatim>\<open>static_cast<double>\<close> of an \<^verbatim>\<open>int\<close>.\<close>

definition double_of_int :: "32 word \<Rightarrow> real" where
  "double_of_int w = real_of_int (sint w)"

definition ConvertDoubleToInt :: "real \<Rightarrow> error + 32 word" where
  "ConvertDoubleToInt v =
     (if v < real_of_int INT_MIN \<or> v > real_of_int UINT_MAX then Inl OutOfIntegerRange
      else if v \<le> real_of_int INT_MAX then Inr (static_cast_int v)
      else Inr (static_cast_unsigned v))"

subsection \<open>Reading the value stack\<close>

definition StackTopTwoValues :: "LineParser \<Rightarrow> error + (Value \<times> Value)" where
  "StackTopTwoValues s =
     (case m_valueStack s of
        value2 # value1 # rest \<Rightarrow>
          if IsNumber value1 \<noteq> IsNumber value2 then Inl TypeMismatch
          else Inr (value1, value2)
      | _ \<Rightarrow> Inl MissingValue)"

definition StackTopString :: "LineParser \<Rightarrow> error + string" where
  "StackTopString s =
     (case m_valueStack s of
        [] \<Rightarrow> Inl MissingValue
      | v # rest \<Rightarrow> if \<not> IsString v then Inl TypeMismatch else Inr (GetString v))"

definition StackTopNumber :: "LineParser \<Rightarrow> error + real" where
  "StackTopNumber s =
     (case m_valueStack s of
        [] \<Rightarrow> Inl MissingValue
      | v # rest \<Rightarrow> if \<not> IsNumber v then Inl TypeMismatch else Inr (GetNumber v))"

definition StackTopInt :: "LineParser \<Rightarrow> error + 32 word" where
  "StackTopInt s =
     (case StackTopNumber s of Inl e \<Rightarrow> Inl e | Inr x \<Rightarrow> ConvertDoubleToInt x)"

definition StackTopTwoNumbers :: "LineParser \<Rightarrow> error + (real \<times> real)" where
  "StackTopTwoNumbers s =
     (case m_valueStack s of
        value2 # value1 # rest \<Rightarrow>
          if \<not> IsNumber value1 \<or> \<not> IsNumber value2 then Inl TypeMismatch
          else Inr (GetNumber value1, GetNumber value2)
      | _ \<Rightarrow> Inl MissingValue)"

definition StackTopTwoInts :: "LineParser \<Rightarrow> error + (32 word \<times> 32 word)" where
  "StackTopTwoInts s =
     (case StackTopTwoNumbers s of
        Inl e \<Rightarrow> Inl e
      | Inr (a, b) \<Rightarrow>
          (case ConvertDoubleToInt a of
             Inl e \<Rightarrow> Inl e
           | Inr i \<Rightarrow> (case ConvertDoubleToInt b of Inl e \<Rightarrow> Inl e | Inr j \<Rightarrow> Inr (i, j))))"

text \<open>
  The two ways a handler stores its result: a handler of two operands writes slot
  \<^verbatim>\<open>ptr - 2\<close> and decrements the pointer, a handler of one operand writes slot \<^verbatim>\<open>ptr - 1\<close>.
\<close>

definition store2 :: "Value \<Rightarrow> LineParser \<Rightarrow> LineParser" where
  "store2 v s = s\<lparr>m_valueStack := v # drop 2 (m_valueStack s)\<rparr>"

definition store1 :: "Value \<Rightarrow> LineParser \<Rightarrow> LineParser" where
  "store1 v s = s\<lparr>m_valueStack := v # drop 1 (m_valueStack s)\<rparr>"

subsection \<open>Arithmetic handlers\<close>

definition EvalAdd :: "LineParser \<Rightarrow> unit result" where
  "EvalAdd s =
     (case StackTopTwoValues s of
        Inl e \<Rightarrow> (Inl e, s)
      | Inr (value1, value2) \<Rightarrow>
          (case value1 of
             NumberValue x \<Rightarrow> (Inr (), store2 (NumberValue (x + GetNumber value2)) s)
           | StringValue a \<Rightarrow> (Inr (), store2 (StringValue (a @ GetString value2)) s)))"

definition EvalSubtract :: "LineParser \<Rightarrow> unit result" where
  "EvalSubtract s =
     (case StackTopTwoNumbers s of
        Inl e \<Rightarrow> (Inl e, s)
      | Inr (a, b) \<Rightarrow> (Inr (), store2 (NumberValue (a - b)) s))"

definition EvalMultiply :: "LineParser \<Rightarrow> unit result" where
  "EvalMultiply s =
     (case StackTopTwoNumbers s of
        Inl e \<Rightarrow> (Inl e, s)
      | Inr (a, b) \<Rightarrow> (Inr (), store2 (NumberValue (a * b)) s))"

definition EvalDivide :: "LineParser \<Rightarrow> unit result" where
  "EvalDivide s =
     (case StackTopTwoNumbers s of
        Inl e \<Rightarrow> (Inl e, s)
      | Inr (a, b) \<Rightarrow>
          if b = 0 then (Inl DivisionByZero, s)
          else (Inr (), store2 (NumberValue (a / b)) s))"

text \<open>
  \<^verbatim>\<open>pow\<close> stores the result and decrements the pointer before \<^verbatim>\<open>errno\<close> is read;
  \<^verbatim>\<open>errno\<close> is not cleared before the call.
\<close>

definition EvalPower :: "Externals \<Rightarrow> LineParser \<Rightarrow> unit result" where
  "EvalPower env s =
     (case StackTopTwoNumbers s of
        Inl e \<Rightarrow> (Inl e, s)
      | Inr (a, b) \<Rightarrow>
          (let s1 = store2 (NumberValue (fst (c_pow env a b))) (set_errno (snd (c_pow env a b)) s)
           in if errno s1 = ERANGE then (Inl NumberTooBig, s1)
              else if errno s1 = EDOM then (Inl IllegalOperation, s1)
              else (Inr (), s1)))"

text \<open>
  Integer division and remainder truncate towards zero. \<^verbatim>\<open>INT_MIN / -1\<close> overflows in C++;
  here it wraps.
\<close>

definition EvalDiv :: "LineParser \<Rightarrow> unit result" where
  "EvalDiv s =
     (case StackTopTwoInts s of
        Inl e \<Rightarrow> (Inl e, s)
      | Inr (a, b) \<Rightarrow>
          if b = 0 then (Inl DivisionByZero, s)
          else (Inr (), store2 (NumberValue (double_of_int (word_of_int (sint a sdiv sint b)))) s))"

definition EvalMod :: "LineParser \<Rightarrow> unit result" where
  "EvalMod s =
     (case StackTopTwoInts s of
        Inl e \<Rightarrow> (Inl e, s)
      | Inr (a, b) \<Rightarrow>
          if b = 0 then (Inl DivisionByZero, s)
          else (Inr (), store2 (NumberValue (double_of_int (word_of_int (sint a smod sint b)))) s))"

subsection \<open>Shifts\<close>

definition LogicalShiftLeft :: "32 word \<Rightarrow> nat \<Rightarrow> 32 word" where
  "LogicalShiftLeft v shift = push_bit shift v"

definition ArithmeticShiftRight :: "32 word \<Rightarrow> nat \<Rightarrow> 32 word" where
  "ArithmeticShiftRight v shift =
     (let shifted = drop_bit shift v
      in if sint v < 0 then shifted OR push_bit (32 - shift) (NOT 0) else shifted)"

definition EvalShiftLeft :: "LineParser \<Rightarrow> unit result" where
  "EvalShiftLeft s =
     (case StackTopTwoInts s of
        Inl e \<Rightarrow> (Inl e, s)
      | Inr (val, shift) \<Rightarrow>
          (let res =
             (if sint shift > 31 \<or> sint shift < - 31 then 0
              else if sint shift > 0 then LogicalShiftLeft val (nat (sint shift))
              else if sint shift = 0 then val
              else ArithmeticShiftRight val (nat (- sint shift)))
           in (Inr (), store2 (NumberValue (double_of_int res)) s)))"

definition EvalShiftRight :: "LineParser \<Rightarrow> unit result" where
  "EvalShiftRight s =
     (case StackTopTwoInts s of
        Inl e \<Rightarrow> (Inl e, s)
      | Inr (val, shift) \<Rightarrow>
          (let res =
             (if sint shift > 31 \<or> sint shift < - 31 then 0
              else if sint shift > 0 then ArithmeticShiftRight val (nat (sint shift))
              else if sint shift = 0 then val
              else LogicalShiftLeft val (nat (- sint shift)))
           in (Inr (), store2 (NumberValue (double_of_int res)) s)))"

subsection \<open>Bitwise handlers\<close>

definition EvalAnd :: "LineParser \<Rightarrow> unit result" where
  "EvalAnd s =
     (case StackTopTwoInts s of
        Inl e \<Rightarrow> (Inl e, s)
      | Inr (a, b) \<Rightarrow> (Inr (), store2 (NumberValue (double_of_int (a AND b))) s))"

definition EvalOr :: "LineParser \<Rightarrow> unit result" where
  "EvalOr s =
     (case StackTopTwoInts s of
        Inl e \<Rightarrow> (Inl e, s)
      | Inr (a, b) \<Rightarrow> (Inr (), store2 (NumberValue (double_of_int (a OR b))) s))"

definition EvalEor :: "LineParser \<Rightarrow> unit result" where
  "EvalEor s =
     (case StackTopTwoInts s of
        Inl e \<Rightarrow> (Inl e, s)
      | Inr (a, b) \<Rightarrow> (Inr (), store2 (NumberValue (double_of_int (a XOR b))) s))"

subsection \<open>Comparisons\<close>

text \<open>
  Each of the six handlers takes the top two values with \<open>StackTopTwoValues\<close>, tests the
  result of \<open>Compare\<close> and stores \<open>-1\<close> or \<open>0\<close>; \<open>EvalComparison\<close> is their common shape,
  with the test as its argument.
\<close>

definition EvalComparison :: "(int \<Rightarrow> bool) \<Rightarrow> LineParser \<Rightarrow> unit result" where
  "EvalComparison test s =
     (case StackTopTwoValues s of
        Inl e \<Rightarrow> (Inl e, s)
      | Inr (value1, value2) \<Rightarrow>
          (case Compare value1 value2 of
             Inl e \<Rightarrow> (Inl e, s)
           | Inr c \<Rightarrow> (Inr (), store2 (NumberValue (if test c then - 1 else 0)) s)))"

definition EvalEqual :: "LineParser \<Rightarrow> unit result" where
  "EvalEqual = EvalComparison (\<lambda>c. c = 0)"

definition EvalNotEqual :: "LineParser \<Rightarrow> unit result" where
  "EvalNotEqual = EvalComparison (\<lambda>c. c \<noteq> 0)"

definition EvalLessThanOrEqual :: "LineParser \<Rightarrow> unit result" where
  "EvalLessThanOrEqual = EvalComparison (\<lambda>c. c \<le> 0)"

definition EvalMoreThanOrEqual :: "LineParser \<Rightarrow> unit result" where
  "EvalMoreThanOrEqual = EvalComparison (\<lambda>c. c \<ge> 0)"

definition EvalLessThan :: "LineParser \<Rightarrow> unit result" where
  "EvalLessThan = EvalComparison (\<lambda>c. c < 0)"

definition EvalMoreThan :: "LineParser \<Rightarrow> unit result" where
  "EvalMoreThan = EvalComparison (\<lambda>c. c > 0)"

subsection \<open>Unary operators\<close>

definition EvalNegate :: "LineParser \<Rightarrow> unit result" where
  "EvalNegate s =
     (case StackTopNumber s of
        Inl e \<Rightarrow> (Inl e, s)
      | Inr x \<Rightarrow> (Inr (), store1 (NumberValue (- x)) s))"

definition EvalNot :: "LineParser \<Rightarrow> unit result" where
  "EvalNot s =
     (case StackTopInt s of
        Inl e \<Rightarrow> (Inl e, s)
      | Inr i \<Rightarrow> (Inr (), store1 (NumberValue (double_of_int (NOT i))) s))"

definition EvalPosate :: "LineParser \<Rightarrow> unit result" where
  "EvalPosate s = (if length (m_valueStack s) < 1 then (Inl MissingValue, s) else (Inr (), s))"

definition EvalLo :: "LineParser \<Rightarrow> unit result" where
  "EvalLo s =
     (case StackTopInt s of
        Inl e \<Rightarrow> (Inl e, s)
      | Inr i \<Rightarrow> (Inr (), store1 (NumberValue (double_of_int (i AND 0xFF))) s))"

definition EvalHi :: "LineParser \<Rightarrow> unit result" where
  "EvalHi s =
     (case StackTopInt s of
        Inl e \<Rightarrow> (Inl e, s)
      | Inr i \<Rightarrow> (Inr (), store1 (NumberValue (double_of_int (drop_bit 8 (i AND 0xFFFF)))) s))"

subsection \<open>Mathematical functions\<close>

text \<open>
  Each handler stores the result of the library function; the ones below that throw read
  \<^verbatim>\<open>errno\<close> after the store. No handler clears \<^verbatim>\<open>errno\<close> before its call.
\<close>

definition EvalSin :: "Externals \<Rightarrow> LineParser \<Rightarrow> unit result" where
  "EvalSin env s =
     (case StackTopNumber s of
        Inl e \<Rightarrow> (Inl e, s)
      | Inr x \<Rightarrow>
          (Inr (), store1 (NumberValue (fst (c_sin env x))) (set_errno (snd (c_sin env x)) s)))"

definition EvalCos :: "Externals \<Rightarrow> LineParser \<Rightarrow> unit result" where
  "EvalCos env s =
     (case StackTopNumber s of
        Inl e \<Rightarrow> (Inl e, s)
      | Inr x \<Rightarrow>
          (Inr (), store1 (NumberValue (fst (c_cos env x))) (set_errno (snd (c_cos env x)) s)))"

definition EvalTan :: "Externals \<Rightarrow> LineParser \<Rightarrow> unit result" where
  "EvalTan env s =
     (case StackTopNumber s of
        Inl e \<Rightarrow> (Inl e, s)
      | Inr x \<Rightarrow>
          (Inr (), store1 (NumberValue (fst (c_tan env x))) (set_errno (snd (c_tan env x)) s)))"

definition EvalArcSin :: "Externals \<Rightarrow> LineParser \<Rightarrow> unit result" where
  "EvalArcSin env s =
     (case StackTopNumber s of
        Inl e \<Rightarrow> (Inl e, s)
      | Inr x \<Rightarrow>
          (let s1 = store1 (NumberValue (fst (c_asin env x))) (set_errno (snd (c_asin env x)) s)
           in if errno s1 = EDOM then (Inl IllegalOperation, s1) else (Inr (), s1)))"

definition EvalArcCos :: "Externals \<Rightarrow> LineParser \<Rightarrow> unit result" where
  "EvalArcCos env s =
     (case StackTopNumber s of
        Inl e \<Rightarrow> (Inl e, s)
      | Inr x \<Rightarrow>
          (let s1 = store1 (NumberValue (fst (c_acos env x))) (set_errno (snd (c_acos env x)) s)
           in if errno s1 = EDOM then (Inl IllegalOperation, s1) else (Inr (), s1)))"

definition EvalArcTan :: "Externals \<Rightarrow> LineParser \<Rightarrow> unit result" where
  "EvalArcTan env s =
     (case StackTopNumber s of
        Inl e \<Rightarrow> (Inl e, s)
      | Inr x \<Rightarrow>
          (let s1 = store1 (NumberValue (fst (c_atan env x))) (set_errno (snd (c_atan env x)) s)
           in if errno s1 = EDOM then (Inl IllegalOperation, s1) else (Inr (), s1)))"

definition EvalLog :: "Externals \<Rightarrow> LineParser \<Rightarrow> unit result" where
  "EvalLog env s =
     (case StackTopNumber s of
        Inl e \<Rightarrow> (Inl e, s)
      | Inr x \<Rightarrow>
          (let s1 = store1 (NumberValue (fst (c_log10 env x))) (set_errno (snd (c_log10 env x)) s)
           in if errno s1 = EDOM \<or> errno s1 = ERANGE then (Inl IllegalOperation, s1)
              else (Inr (), s1)))"

definition EvalLn :: "Externals \<Rightarrow> LineParser \<Rightarrow> unit result" where
  "EvalLn env s =
     (case StackTopNumber s of
        Inl e \<Rightarrow> (Inl e, s)
      | Inr x \<Rightarrow>
          (let s1 = store1 (NumberValue (fst (c_log env x))) (set_errno (snd (c_log env x)) s)
           in if errno s1 = EDOM \<or> errno s1 = ERANGE then (Inl IllegalOperation, s1)
              else (Inr (), s1)))"

definition EvalExp :: "Externals \<Rightarrow> LineParser \<Rightarrow> unit result" where
  "EvalExp env s =
     (case StackTopNumber s of
        Inl e \<Rightarrow> (Inl e, s)
      | Inr x \<Rightarrow>
          (let s1 = store1 (NumberValue (fst (c_exp env x))) (set_errno (snd (c_exp env x)) s)
           in if errno s1 = ERANGE then (Inl IllegalOperation, s1) else (Inr (), s1)))"

definition EvalSqrt :: "Externals \<Rightarrow> LineParser \<Rightarrow> unit result" where
  "EvalSqrt env s =
     (case StackTopNumber s of
        Inl e \<Rightarrow> (Inl e, s)
      | Inr x \<Rightarrow>
          (let s1 = store1 (NumberValue (fst (c_sqrt env x))) (set_errno (snd (c_sqrt env x)) s)
           in if errno s1 = EDOM then (Inl IllegalOperation, s1) else (Inr (), s1)))"

definition EvalDegToRad :: "LineParser \<Rightarrow> unit result" where
  "EvalDegToRad s =
     (case StackTopNumber s of
        Inl e \<Rightarrow> (Inl e, s)
      | Inr x \<Rightarrow> (Inr (), store1 (NumberValue (x * pi / 180)) s))"

definition EvalRadToDeg :: "LineParser \<Rightarrow> unit result" where
  "EvalRadToDeg s =
     (case StackTopNumber s of
        Inl e \<Rightarrow> (Inl e, s)
      | Inr x \<Rightarrow> (Inr (), store1 (NumberValue (x * 180 / pi)) s))"

definition EvalInt :: "LineParser \<Rightarrow> unit result" where
  "EvalInt s =
     (case StackTopInt s of
        Inl e \<Rightarrow> (Inl e, s)
      | Inr i \<Rightarrow> (Inr (), store1 (NumberValue (double_of_int i)) s))"

definition EvalAbs :: "LineParser \<Rightarrow> unit result" where
  "EvalAbs s =
     (case StackTopNumber s of
        Inl e \<Rightarrow> (Inl e, s)
      | Inr x \<Rightarrow> (Inr (), store1 (NumberValue \<bar>x\<bar>) s))"

definition EvalSgn :: "LineParser \<Rightarrow> unit result" where
  "EvalSgn s =
     (case StackTopNumber s of
        Inl e \<Rightarrow> (Inl e, s)
      | Inr val \<Rightarrow>
          (Inr (), store1 (NumberValue (if val < 0 then - 1 else if val > 0 then 1 else 0)) s))"

definition EvalRnd :: "Externals \<Rightarrow> LineParser \<Rightarrow> unit result" where
  "EvalRnd env s =
     (case StackTopNumber s of
        Inl e \<Rightarrow> (Inl e, s)
      | Inr val \<Rightarrow>
          if val < 1 then (Inl IllegalOperation, s)
          else
            (let r = real (fst (beebasm_rand env (rand_state s)))
                       / (real (BEEBASM_RAND_MAX env) + 1);
                 s1 = s\<lparr>rand_state := snd (beebasm_rand env (rand_state s))\<rparr>
             in if val = 1 then (Inr (), store1 (NumberValue r) s1)
                else (case ConvertDoubleToInt (r * val) of
                        Inl e \<Rightarrow> (Inl e, s1)
                      | Inr i \<Rightarrow> (Inr (), store1 (NumberValue (double_of_int i)) s1))))"

subsection \<open>Time and strings\<close>

text \<open>The pointer that \<^verbatim>\<open>String::Text\<close> returns, read as a C string: up to the first NUL.\<close>

definition c_string :: "string \<Rightarrow> string" where
  "c_string text = takeWhile (\<lambda>c. (of_char c :: nat) \<noteq> 0) text"

definition FormatAssemblyTime :: "Externals \<Rightarrow> string \<Rightarrow> LineParser \<Rightarrow> Value result" where
  "FormatAssemblyTime env formatString s =
     (if length (strftime_assembly_time env formatString) = 0 then (Inl TimeResultTooBig, s)
      else (Inr (StringValue (strftime_assembly_time env formatString)), s))"

definition EvalTime :: "Externals \<Rightarrow> LineParser \<Rightarrow> unit result" where
  "EvalTime env s =
     (case StackTopString s of
        Inl e \<Rightarrow> (Inl e, s)
      | Inr fmt \<Rightarrow>
          (case FormatAssemblyTime env (c_string fmt) s of
             (Inl e, s1) \<Rightarrow> (Inl e, s1)
           | (Inr v, s1) \<Rightarrow> (Inr (), store1 v s1)))"

definition EvalStr :: "Externals \<Rightarrow> LineParser \<Rightarrow> unit result" where
  "EvalStr env s =
     (case StackTopNumber s of
        Inl e \<Rightarrow> (Inl e, s)
      | Inr x \<Rightarrow> (Inr (), store1 (StringValue (PrintNumber env x)) s))"

definition hex_digit :: "nat \<Rightarrow> char" where
  "hex_digit d = (if d < 10 then char_of (48 + d) else char_of (55 + d))"

function HexString :: "nat \<Rightarrow> string" where
  "HexString n = (if n < 16 then [hex_digit n] else HexString (n div 16) @ [hex_digit (n mod 16)])"
  by pat_completeness auto
termination
  by (relation "measure id") auto

text \<open>A stream in \<^verbatim>\<open>std::hex\<close> mode prints an \<^verbatim>\<open>int\<close> as its unsigned bit pattern.\<close>

definition EvalStrHex :: "LineParser \<Rightarrow> unit result" where
  "EvalStrHex s =
     (case StackTopInt s of
        Inl e \<Rightarrow> (Inl e, s)
      | Inr i \<Rightarrow> (Inr (), store1 (StringValue (HexString (unat i))) s))"

definition EvalVal :: "Externals \<Rightarrow> LineParser \<Rightarrow> unit result" where
  "EvalVal env s =
     (case StackTopString s of
        Inl e \<Rightarrow> (Inl e, s)
      | Inr str \<Rightarrow>
          (Inr (), store1 (NumberValue (fst (c_strtod env (c_string str))))
                     (set_errno (snd (c_strtod env (c_string str))) s)))"

definition EvalLen :: "LineParser \<Rightarrow> unit result" where
  "EvalLen s =
     (case StackTopString s of
        Inl e \<Rightarrow> (Inl e, s)
      | Inr str \<Rightarrow> (Inr (), store1 (NumberValue (real (length str))) s))"

definition EvalChr :: "LineParser \<Rightarrow> unit result" where
  "EvalChr s =
     (case StackTopInt s of
        Inl e \<Rightarrow> (Inl e, s)
      | Inr ascii \<Rightarrow>
          if sint ascii < 0 \<or> sint ascii > 255 then (Inl IllegalOperation, s)
          else (Inr (), store1 (StringValue [char_of (unat ascii)]) s))"

definition EvalAsc :: "LineParser \<Rightarrow> unit result" where
  "EvalAsc s =
     (case StackTopString s of
        Inl e \<Rightarrow> (Inl e, s)
      | Inr str \<Rightarrow>
          if length str = 0 then (Inl IllegalOperation, s)
          else (Inr (), store1 (NumberValue (real (of_char (hd str) :: nat))) s))"

text \<open>
  The handlers of several parameters check the stack themselves, lower the stack pointer
  and only then convert their numbers.
\<close>

definition EvalMid :: "LineParser \<Rightarrow> unit result" where
  "EvalMid s =
     (case m_valueStack s of
        value3 # value2 # value1 # rest \<Rightarrow>
          if \<not> IsString value1 \<or> \<not> IsNumber value2 \<or> \<not> IsNumber value3
          then (Inl TypeMismatch, s)
          else
            (let s1 = s\<lparr>m_valueStack := drop 2 (m_valueStack s)\<rparr>;
                 text = GetString value1
             in case ConvertDoubleToInt (GetNumber value2) of
                  Inl e \<Rightarrow> (Inl e, s1)
                | Inr i \<Rightarrow>
                    (case ConvertDoubleToInt (GetNumber value3) of
                       Inl e \<Rightarrow> (Inl e, s1)
                     | Inr len \<Rightarrow>
                         if sint (i - 1) < 0 \<or> unat (i - 1) > length text \<or> sint len < 0
                         then (Inl IllegalOperation, s1)
                         else (Inr (),
                               store1 (StringValue (SubString text (unat (i - 1)) (unat len))) s1)))
      | _ \<Rightarrow> (Inl MissingValue, s))"

definition EvalLeft :: "LineParser \<Rightarrow> unit result" where
  "EvalLeft s =
     (case m_valueStack s of
        value2 # value1 # rest \<Rightarrow>
          if \<not> IsString value1 \<or> \<not> IsNumber value2 then (Inl TypeMismatch, s)
          else
            (let s1 = s\<lparr>m_valueStack := drop 1 (m_valueStack s)\<rparr>;
                 text = GetString value1
             in case ConvertDoubleToInt (GetNumber value2) of
                  Inl e \<Rightarrow> (Inl e, s1)
                | Inr count \<Rightarrow>
                    if sint count < 0 \<or> unat count > length text then (Inl IllegalOperation, s1)
                    else (Inr (), store1 (StringValue (SubString text 0 (unat count))) s1))
      | _ \<Rightarrow> (Inl MissingValue, s))"

definition EvalRight :: "LineParser \<Rightarrow> unit result" where
  "EvalRight s =
     (case m_valueStack s of
        value2 # value1 # rest \<Rightarrow>
          if \<not> IsString value1 \<or> \<not> IsNumber value2 then (Inl TypeMismatch, s)
          else
            (let s1 = s\<lparr>m_valueStack := drop 1 (m_valueStack s)\<rparr>;
                 text = GetString value1
             in case ConvertDoubleToInt (GetNumber value2) of
                  Inl e \<Rightarrow> (Inl e, s1)
                | Inr count \<Rightarrow>
                    if sint count < 0 \<or> unat count > length text then (Inl IllegalOperation, s1)
                    else (Inr (),
                          store1 (StringValue
                                    (SubString text (length text - unat count) (unat count))) s1))
      | _ \<Rightarrow> (Inl MissingValue, s))"

text \<open>
  The product in the last test is the product of two \<^verbatim>\<open>unsigned int\<close>; it is reached only
  when both factors are below \<open>0x10000\<close>.
\<close>

definition EvalString :: "LineParser \<Rightarrow> unit result" where
  "EvalString s =
     (case m_valueStack s of
        value2 # value1 # rest \<Rightarrow>
          if \<not> IsNumber value1 \<or> \<not> IsString value2 then (Inl TypeMismatch, s)
          else
            (let s1 = s\<lparr>m_valueStack := drop 1 (m_valueStack s)\<rparr>
             in case ConvertDoubleToInt (GetNumber value1) of
                  Inl e \<Rightarrow> (Inl e, s1)
                | Inr count \<Rightarrow>
                    (let text = GetString value2
                     in if sint count < 0 \<or> sint count \<ge> 0x10000 \<or> length text \<ge> 0x10000
                           \<or> (unat count * length text) mod 2 ^ 32 \<ge> 0x10000
                        then (Inl IllegalOperation, s1)
                        else (Inr (), store1 (StringValue (Repeat text (unat count))) s1)))
      | _ \<Rightarrow> (Inl MissingValue, s))"

definition EvalUpper :: "LineParser \<Rightarrow> unit result" where
  "EvalUpper s =
     (case StackTopString s of
        Inl e \<Rightarrow> (Inl e, s)
      | Inr str \<Rightarrow> (Inr (), store1 (StringValue (Upper str)) s))"

definition EvalLower :: "LineParser \<Rightarrow> unit result" where
  "EvalLower s =
     (case StackTopString s of
        Inl e \<Rightarrow> (Inl e, s)
      | Inr str \<Rightarrow> (Inr (), store1 (StringValue (Lower str)) s))"

subsection \<open>EVAL and the dispatch of a handler\<close>

text \<open>
  \<open>EVAL\<close> builds a new parser on the text of its operand and evaluates it; the new parser
  shares \<^verbatim>\<open>errno\<close> and the random number generator with the running one. The nested
  evaluation is the argument \<open>nested\<close>; it is \<open>None\<close> when it does not return.
\<close>

definition new_parser :: "string \<Rightarrow> LineParser \<Rightarrow> LineParser" where
  "new_parser line s =
     \<lparr>m_line = line, m_column = 0, m_valueStack = [], m_operatorStack = [],
      errno = errno s, rand_state = rand_state s\<rparr>"

definition EvalEval ::
  "(LineParser \<Rightarrow> Value result option) \<Rightarrow> LineParser \<Rightarrow> unit result option" where
  "EvalEval nested s =
     (case StackTopString s of
        Inl e \<Rightarrow> Some (Inl e, s)
      | Inr expr \<Rightarrow>
          (case nested (new_parser expr s) of
             None \<Rightarrow> None
           | Some (Inl e, p) \<Rightarrow> Some (Inl e, s\<lparr>errno := errno p, rand_state := rand_state p\<rparr>)
           | Some (Inr v, p) \<Rightarrow>
               Some (Inr (), store1 v (s\<lparr>errno := errno p, rand_state := rand_state p\<rparr>))))"

fun call_handler ::
  "Externals \<Rightarrow> (LineParser \<Rightarrow> Value result option) \<Rightarrow> Handler \<Rightarrow> LineParser
     \<Rightarrow> unit result option" where
  "call_handler env nested H_EvalPower s = Some (EvalPower env s)"
| "call_handler env nested H_EvalMultiply s = Some (EvalMultiply s)"
| "call_handler env nested H_EvalDivide s = Some (EvalDivide s)"
| "call_handler env nested H_EvalMod s = Some (EvalMod s)"
| "call_handler env nested H_EvalDiv s = Some (EvalDiv s)"
| "call_handler env nested H_EvalShiftLeft s = Some (EvalShiftLeft s)"
| "call_handler env nested H_EvalShiftRight s = Some (EvalShiftRight s)"
| "call_handler env nested H_EvalAdd s = Some (EvalAdd s)"
| "call_handler env nested H_EvalSubtract s = Some (EvalSubtract s)"
| "call_handler env nested H_EvalEqual s = Some (EvalEqual s)"
| "call_handler env nested H_EvalNotEqual s = Some (EvalNotEqual s)"
| "call_handler env nested H_EvalLessThanOrEqual s = Some (EvalLessThanOrEqual s)"
| "call_handler env nested H_EvalMoreThanOrEqual s = Some (EvalMoreThanOrEqual s)"
| "call_handler env nested H_EvalLessThan s = Some (EvalLessThan s)"
| "call_handler env nested H_EvalMoreThan s = Some (EvalMoreThan s)"
| "call_handler env nested H_EvalAnd s = Some (EvalAnd s)"
| "call_handler env nested H_EvalOr s = Some (EvalOr s)"
| "call_handler env nested H_EvalEor s = Some (EvalEor s)"
| "call_handler env nested H_EvalNegate s = Some (EvalNegate s)"
| "call_handler env nested H_EvalPosate s = Some (EvalPosate s)"
| "call_handler env nested H_EvalHi s = Some (EvalHi s)"
| "call_handler env nested H_EvalLo s = Some (EvalLo s)"
| "call_handler env nested H_EvalSin s = Some (EvalSin env s)"
| "call_handler env nested H_EvalCos s = Some (EvalCos env s)"
| "call_handler env nested H_EvalTan s = Some (EvalTan env s)"
| "call_handler env nested H_EvalArcSin s = Some (EvalArcSin env s)"
| "call_handler env nested H_EvalArcCos s = Some (EvalArcCos env s)"
| "call_handler env nested H_EvalArcTan s = Some (EvalArcTan env s)"
| "call_handler env nested H_EvalSqrt s = Some (EvalSqrt env s)"
| "call_handler env nested H_EvalDegToRad s = Some (EvalDegToRad s)"
| "call_handler env nested H_EvalRadToDeg s = Some (EvalRadToDeg s)"
| "call_handler env nested H_EvalInt s = Some (EvalInt s)"
| "call_handler env nested H_EvalAbs s = Some (EvalAbs s)"
| "call_handler env nested H_EvalSgn s = Some (EvalSgn s)"
| "call_handler env nested H_EvalRnd s = Some (EvalRnd env s)"
| "call_handler env nested H_EvalNot s = Some (EvalNot s)"
| "call_handler env nested H_EvalLog s = Some (EvalLog env s)"
| "call_handler env nested H_EvalLn s = Some (EvalLn env s)"
| "call_handler env nested H_EvalExp s = Some (EvalExp env s)"
| "call_handler env nested H_EvalTime s = Some (EvalTime env s)"
| "call_handler env nested H_EvalStr s = Some (EvalStr env s)"
| "call_handler env nested H_EvalStrHex s = Some (EvalStrHex s)"
| "call_handler env nested H_EvalVal s = Some (EvalVal env s)"
| "call_handler env nested H_EvalEval s = EvalEval nested s"
| "call_handler env nested H_EvalLen s = Some (EvalLen s)"
| "call_handler env nested H_EvalChr s = Some (EvalChr s)"
| "call_handler env nested H_EvalAsc s = Some (EvalAsc s)"
| "call_handler env nested H_EvalMid s = Some (EvalMid s)"
| "call_handler env nested H_EvalLeft s = Some (EvalLeft s)"
| "call_handler env nested H_EvalRight s = Some (EvalRight s)"
| "call_handler env nested H_EvalString s = Some (EvalString s)"
| "call_handler env nested H_EvalUpper s = Some (EvalUpper s)"
| "call_handler env nested H_EvalLower s = Some (EvalLower s)"

subsection \<open>The operator tables\<close>

abbreviation OP :: "string \<Rightarrow> int \<Rightarrow> int \<Rightarrow> Handler option \<Rightarrow> Operator" where
  "OP t p n h \<equiv> \<lparr>token = t, precedence = p, parameterCount = n, handler = h\<rparr>"

definition m_gaBinaryOperatorTable :: "Operator list" where
  "m_gaBinaryOperatorTable =
   [ OP '')'' (- 1) 0 None,
     OP '']'' (- 1) 0 None,
     OP '','' (- 1) 0 None,
     OP ''^'' 7 0 (Some H_EvalPower),
     OP ''*'' 6 0 (Some H_EvalMultiply),
     OP ''/'' 6 0 (Some H_EvalDivide),
     OP ''%'' 6 0 (Some H_EvalMod),
     OP ''DIV'' 6 0 (Some H_EvalDiv),
     OP ''MOD'' 6 0 (Some H_EvalMod),
     OP ''<<'' 6 0 (Some H_EvalShiftLeft),
     OP ''>>'' 6 0 (Some H_EvalShiftRight),
     OP ''+'' 5 0 (Some H_EvalAdd),
     OP ''-'' 5 0 (Some H_EvalSubtract),
     OP ''=='' 4 0 (Some H_EvalEqual),
     OP ''='' 4 0 (Some H_EvalEqual),
     OP ''<>'' 4 0 (Some H_EvalNotEqual),
     OP ''!='' 4 0 (Some H_EvalNotEqual),
     OP ''<='' 4 0 (Some H_EvalLessThanOrEqual),
     OP ''>='' 4 0 (Some H_EvalMoreThanOrEqual),
     OP ''<'' 4 0 (Some H_EvalLessThan),
     OP ''>'' 4 0 (Some H_EvalMoreThan),
     OP ''AND'' 3 0 (Some H_EvalAnd),
     OP ''OR'' 2 0 (Some H_EvalOr),
     OP ''EOR'' 2 0 (Some H_EvalEor) ]"

definition m_gaUnaryOperatorTable :: "Operator list" where
  "m_gaUnaryOperatorTable =
   [ OP ''('' (- 1) 0 None,
     OP ''['' (- 1) 0 None,
     OP ''-'' 8 0 (Some H_EvalNegate),
     OP ''+'' 8 0 (Some H_EvalPosate),
     OP ''HI('' 10 1 (Some H_EvalHi),
     OP ''LO('' 10 1 (Some H_EvalLo),
     OP ''>'' 10 0 (Some H_EvalHi),
     OP ''<'' 10 0 (Some H_EvalLo),
     OP ''SIN('' 10 1 (Some H_EvalSin),
     OP ''COS('' 10 1 (Some H_EvalCos),
     OP ''TAN('' 10 1 (Some H_EvalTan),
     OP ''ASN('' 10 1 (Some H_EvalArcSin),
     OP ''ACS('' 10 1 (Some H_EvalArcCos),
     OP ''ATN('' 10 1 (Some H_EvalArcTan),
     OP ''SQR('' 10 1 (Some H_EvalSqrt),
     OP ''RAD('' 10 1 (Some H_EvalDegToRad),
     OP ''DEG('' 10 1 (Some H_EvalRadToDeg),
     OP ''INT('' 10 1 (Some H_EvalInt),
     OP ''ABS('' 10 1 (Some H_EvalAbs),
     OP ''SGN('' 10 1 (Some H_EvalSgn),
     OP ''RND('' 10 1 (Some H_EvalRnd),
     OP ''NOT('' 10 1 (Some H_EvalNot),
     OP ''LOG('' 10 1 (Some H_EvalLog),
     OP ''LN('' 10 1 (Some H_EvalLn),
     OP ''EXP('' 10 1 (Some H_EvalExp),
     OP ''TIME$('' 10 1 (Some H_EvalTime),
     OP ''STR$('' 10 1 (Some H_EvalStr),
     OP ''STR$~('' 10 1 (Some H_EvalStrHex),
     OP ''VAL('' 10 1 (Some H_EvalVal),
     OP ''EVAL('' 10 1 (Some H_EvalEval),
     OP ''LEN('' 10 1 (Some H_EvalLen),
     OP ''CHR$('' 10 1 (Some H_EvalChr),
     OP ''ASC('' 10 1 (Some H_EvalAsc),
     OP ''MID$('' 10 3 (Some H_EvalMid),
     OP ''LEFT$('' 10 2 (Some H_EvalLeft),
     OP ''RIGHT$('' 10 2 (Some H_EvalRight),
     OP ''STRING$('' 10 2 (Some H_EvalString),
     OP ''UPPER$('' 10 1 (Some H_EvalUpper),
     OP ''LOWER$('' 10 1 (Some H_EvalLower) ]"

text \<open>
  The test of one row against the line at the cursor: every character of the token must
  be inside the line and equal the upper-cased character of the line. The second argument
  is the line from the cursor on. The first row that matches is the one taken.
\<close>

fun match_token :: "string \<Rightarrow> string \<Rightarrow> bool" where
  "match_token [] cs = True"
| "match_token (t # ts) [] = False"
| "match_token (t # ts) (c # cs) = (t = ToUpper c \<and> match_token ts cs)"

definition find_token :: "Operator list \<Rightarrow> LineParser \<Rightarrow> Operator option" where
  "find_token table s =
     List.find (\<lambda>row. match_token (token row) (drop (m_column s) (m_line s))) table"

subsection \<open>GetValue\<close>

text \<open>
  The scan of a string literal, from the character after the opening quote: the text and
  the number of characters consumed, or \<open>None\<close> when the line ends before the closing
  quote. A doubled quote stands for one quote.
\<close>

fun scan_string_literal :: "string \<Rightarrow> (string \<times> nat) option" where
  "scan_string_literal [] = None"
| "scan_string_literal (c # cs) =
     (if c = CHR 0x22 then
        (case cs of
           [] \<Rightarrow> Some ([], 1)
         | d # ds \<Rightarrow>
             if d = CHR 0x22
             then map_option (\<lambda>(text, n). (c # text, n + 2)) (scan_string_literal ds)
             else Some ([], 1))
      else map_option (\<lambda>(text, n). (c # text, n + 1)) (scan_string_literal cs))"

text \<open>A plain \<^verbatim>\<open>char\<close> converted to a double; \<^verbatim>\<open>char\<close> is taken as signed, 8 bits wide.\<close>

definition double_of_char :: "char \<Rightarrow> real" where
  "double_of_char c = real_of_int (sint (word_of_nat (of_char c) :: 8 word))"

definition GetValue :: "Externals \<Rightarrow> LineParser \<Rightarrow> Value result" where
  "GetValue env s =
     (case ParseNumeric env (m_line s) (m_column s) of
        Some (double_value, col) \<Rightarrow> (Inr (NumberValue double_value), s\<lparr>m_column := col\<rparr>)
      | None \<Rightarrow>
          if m_column s < length (m_line s) \<and> m_line s ! m_column s = CHR ''*''
          then (Inr (NumberValue (real_of_int (GetPC env))), s\<lparr>m_column := m_column s + 1\<rparr>)
          else if m_column s < length (m_line s) \<and> m_line s ! m_column s = CHR 0x27
          then
            (if length (m_line s) - m_column s < 3 \<or> m_line s ! (m_column s + 2) \<noteq> CHR 0x27
             then (Inl InvalidCharacter, s)
             else (Inr (NumberValue (double_of_char (m_line s ! (m_column s + 1)))),
                   s\<lparr>m_column := m_column s + 3\<rparr>))
          else if m_column s < length (m_line s) \<and> m_line s ! m_column s = CHR 0x22
          then
            (case scan_string_literal (drop (m_column s + 1) (m_line s)) of
               None \<Rightarrow> (Inl MissingQuote, s\<lparr>m_column := length (m_line s)\<rparr>)
             | Some (text, n) \<Rightarrow> (Inr (StringValue text), s\<lparr>m_column := m_column s + 1 + n\<rparr>))
          else if m_column s < length (m_line s)
                  \<and> (IsAlpha (m_line s ! m_column s) \<or> m_line s ! m_column s = CHR ''_'')
          then
            (let symbolName = fst (GetSymbolName env (m_line s) (m_column s));
                 s1 = s\<lparr>m_column := snd (GetSymbolName env (m_line s) (m_column s))\<rparr>
             in if symbolName = ''TIME$''
                then FormatAssemblyTime env ''%a,%d %b %Y.%H:%M:%S'' s1
                else (case GetSymbolValue env symbolName of
                        None \<Rightarrow> (Inl SymbolNotDefined, s1)
                      | Some v \<Rightarrow> (Inr v, s1)))
          else (Inl InvalidCharacter, s))"

subsection \<open>EvaluateExpression\<close>

text \<open>The three locals of \<open>EvaluateExpression\<close> that live across iterations of its loop.\<close>

record LoopVars =
  bracketCount :: int
  pendingCommaCount :: int
  expected :: TYPE_enum

datatype flow = Continue LoopVars | Break

text \<open>
  The inner loops. Each walks the operator stack from its top; the handlers never touch
  the operator stack, so the loop walks the list it is given and stores what is left of
  it. \<open>call\<close> runs a handler; it is \<open>None\<close> when the handler does not return.

  \<open>pop_and_run\<close> is the loop of both operator branches: while the stack is not empty and
  \<open>pops\<close> holds of the precedence of its top, pop the top and run its handler. The unary
  branch pops a top of strictly higher precedence, the binary branch a top of higher or
  equal precedence.
\<close>

fun pop_and_run ::
  "(Handler \<Rightarrow> LineParser \<Rightarrow> unit result option) \<Rightarrow> (int \<Rightarrow> bool) \<Rightarrow> Operator list
     \<Rightarrow> LineParser \<Rightarrow> unit result option" where
  "pop_and_run call pops [] s = Some (Inr (), s\<lparr>m_operatorStack := []\<rparr>)"
| "pop_and_run call pops (op # ops) s =
     (if pops (precedence op) then
        (case handler op of
           None \<Rightarrow> Some (Inl AssertionFailed, s\<lparr>m_operatorStack := ops\<rparr>)
         | Some h \<Rightarrow>
             (case call h (s\<lparr>m_operatorStack := ops\<rparr>) of
                None \<Rightarrow> None
              | Some (Inl e, s1) \<Rightarrow> Some (Inl e, s1)
              | Some (Inr u, s1) \<Rightarrow> pop_and_run call pops ops s1))
      else Some (Inr (), s\<lparr>m_operatorStack := op # ops\<rparr>))"

text \<open>
  The loop of a close bracket or a separator: pop and run until an operator without a
  handler is popped. The result is that operator, or \<open>None\<close> when the stack ran empty.
\<close>

fun unwind_to_bracket ::
  "(Handler \<Rightarrow> LineParser \<Rightarrow> unit result option) \<Rightarrow> Operator list
     \<Rightarrow> LineParser \<Rightarrow> Operator option result option" where
  "unwind_to_bracket call [] s = Some (Inr None, s\<lparr>m_operatorStack := []\<rparr>)"
| "unwind_to_bracket call (op # ops) s =
     (case handler op of
        None \<Rightarrow> Some (Inr (Some op), s\<lparr>m_operatorStack := ops\<rparr>)
      | Some h \<Rightarrow>
          (case call h (s\<lparr>m_operatorStack := ops\<rparr>) of
             None \<Rightarrow> None
           | Some (Inl e, s1) \<Rightarrow> Some (Inl e, s1)
           | Some (Inr u, s1) \<Rightarrow> unwind_to_bracket call ops s1))"

text \<open>The purge of the operator stack after the main loop.\<close>

fun purge ::
  "(Handler \<Rightarrow> LineParser \<Rightarrow> unit result option) \<Rightarrow> Operator list
     \<Rightarrow> LineParser \<Rightarrow> unit result option" where
  "purge call [] s = Some (Inr (), s\<lparr>m_operatorStack := []\<rparr>)"
| "purge call (op # ops) s =
     (case handler op of
        None \<Rightarrow> Some (Inl MismatchedParentheses, s\<lparr>m_operatorStack := ops\<rparr>)
      | Some h \<Rightarrow>
          (case call h (s\<lparr>m_operatorStack := ops\<rparr>) of
             None \<Rightarrow> None
           | Some (Inl e, s1) \<Rightarrow> Some (Inl e, s1)
           | Some (Inr u, s1) \<Rightarrow> purge call ops s1))"

definition push_operator ::
  "Externals \<Rightarrow> Operator \<Rightarrow> LoopVars \<Rightarrow> LineParser \<Rightarrow> flow result option" where
  "push_operator env thisOp vars s =
     (if length (m_operatorStack s) = MAX_OPERATORS env then Some (Inl ExpressionTooComplex, s)
      else Some (Inr (Continue vars), s\<lparr>m_operatorStack := thisOp # m_operatorStack s\<rparr>))"

text \<open>
  The branch \<open>expected == VALUE_OR_UNARY\<close> of the loop body. The \<^verbatim>\<open>try\<close> block around
  \<open>GetValue\<close> catches \<open>SymbolNotDefined\<close> only.
\<close>

definition value_or_unary_step ::
  "Externals \<Rightarrow> (Handler \<Rightarrow> LineParser \<Rightarrow> unit result option) \<Rightarrow> bool \<Rightarrow> LoopVars
     \<Rightarrow> LineParser \<Rightarrow> flow result option" where
  "value_or_unary_step env call bAllowOneMismatchedCloseBracket vars s =
     (case find_token m_gaUnaryOperatorTable s of
        None \<Rightarrow>
          if length (m_valueStack s) = MAX_VALUES env then Some (Inl ExpressionTooComplex, s)
          else
            (case GetValue env s of
               (Inl e, s1) \<Rightarrow>
                 if e = SymbolNotDefined then
                   (if IsFirstPass env
                    then Some (Inl e, s1\<lparr>m_column :=
                                 SkipExpression env (bracketCount vars)
                                   bAllowOneMismatchedCloseBracket (m_line s1) (m_column s1)\<rparr>)
                    else Some (Inl e, s1))
                 else Some (Inl e, s1)
             | (Inr v, s1) \<Rightarrow>
                 Some (Inr (Continue (vars\<lparr>expected := BINARY\<rparr>)),
                       s1\<lparr>m_valueStack := v # m_valueStack s1\<rparr>))
      | Some row \<Rightarrow>
          (let len = length (token row);
               steps_back = (len > 1 \<and> last (token row) = CHR ''('');
               vars1 = (if steps_back then vars\<lparr>pendingCommaCount := parameterCount row - 1\<rparr>
                        else vars);
               s1 = s\<lparr>m_column := (if steps_back then m_column s + len - 1
                                     else m_column s + len)\<rparr>
           in if steps_back \<and> m_line s1 ! m_column s1 \<noteq> CHR ''(''
              then Some (Inl AssertionFailed, s1)
              else
                (case handler row of
                   Some h \<Rightarrow>
                     (case pop_and_run call (\<lambda>p. precedence row < p) (m_operatorStack s1) s1 of
                        None \<Rightarrow> None
                      | Some (Inl e, s2) \<Rightarrow> Some (Inl e, s2)
                      | Some (Inr u, s2) \<Rightarrow> push_operator env row vars1 s2)
                 | None \<Rightarrow>
                     push_operator env (row\<lparr>parameterCount := pendingCommaCount vars1\<rparr>)
                       (vars1\<lparr>pendingCommaCount := 0, bracketCount := bracketCount vars1 + 1\<rparr>)
                       s1)))"

text \<open>The branch \<open>expected == BINARY\<close> of the loop body.\<close>

definition binary_step ::
  "Externals \<Rightarrow> (Handler \<Rightarrow> LineParser \<Rightarrow> unit result option) \<Rightarrow> bool \<Rightarrow> LoopVars
     \<Rightarrow> LineParser \<Rightarrow> flow result option" where
  "binary_step env call bAllowOneMismatchedCloseBracket vars s =
     (case find_token m_gaBinaryOperatorTable s of
        None \<Rightarrow> Some (Inl InvalidCharacter, s)
      | Some row \<Rightarrow>
          (let s1 = s\<lparr>m_column := m_column s + length (token row)\<rparr>
           in case handler row of
                Some h \<Rightarrow>
                  (case pop_and_run call (\<lambda>p. precedence row \<le> p) (m_operatorStack s1) s1 of
                     None \<Rightarrow> None
                   | Some (Inl e, s2) \<Rightarrow> Some (Inl e, s2)
                   | Some (Inr u, s2) \<Rightarrow>
                       push_operator env row (vars\<lparr>expected := VALUE_OR_UNARY\<rparr>) s2)
              | None \<Rightarrow>
                  (let separator = (token row = '','');
                       vars1 = (if \<not> separator
                                then vars\<lparr>bracketCount := bracketCount vars - 1\<rparr> else vars)
                   in case unwind_to_bracket call (m_operatorStack s1) s1 of
                        None \<Rightarrow> None
                      | Some (Inl e, s2) \<Rightarrow> Some (Inl e, s2)
                      | Some (Inr (Some bracket), s2) \<Rightarrow>
                          if separator then
                            (if parameterCount bracket = 0 then Some (Inl ParameterCount, s2)
                             else Some (Inr (Continue (vars1\<lparr>expected := VALUE_OR_UNARY\<rparr>)),
                                        s2\<lparr>m_operatorStack :=
                                             bracket\<lparr>parameterCount := parameterCount bracket - 1\<rparr>
                                             # m_operatorStack s2\<rparr>))
                          else
                            (if parameterCount bracket \<noteq> 0 then Some (Inl ParameterCount, s2)
                             else Some (Inr (Continue vars1), s2))
                      | Some (Inr None, s2) \<Rightarrow>
                          if bAllowOneMismatchedCloseBracket
                          then Some (Inr Break, s2\<lparr>m_column := m_column s2 - 1\<rparr>)
                          else Some (Inl MismatchedParentheses, s2))))"

definition loop_body ::
  "Externals \<Rightarrow> (Handler \<Rightarrow> LineParser \<Rightarrow> unit result option) \<Rightarrow> bool \<Rightarrow> LoopVars
     \<Rightarrow> LineParser \<Rightarrow> flow result option" where
  "loop_body env call allow vars s =
     (if expected vars = VALUE_OR_UNARY then value_or_unary_step env call allow vars s
      else binary_step env call allow vars s)"

text \<open>
  The main loop, with fuel: one unit for each test of the loop condition. \<open>None\<close> means
  that the fuel ran out, or that a nested evaluation did not return.
\<close>

fun expression_loop ::
  "Externals \<Rightarrow> (Handler \<Rightarrow> LineParser \<Rightarrow> unit result option) \<Rightarrow> bool \<Rightarrow> nat \<Rightarrow> LoopVars
     \<Rightarrow> LineParser \<Rightarrow> unit result option" where
  "expression_loop env call allow 0 vars s = None"
| "expression_loop env call allow (Suc n) vars s =
     (let adv = AdvanceAndCheckEndOfSubStatement env (bracketCount vars = 0)
                  (m_line s) (m_column s);
          s0 = s\<lparr>m_column := snd adv\<rparr>
      in if \<not> fst adv then Some (Inr (), s0)
         else
           (case loop_body env call allow vars s0 of
              None \<Rightarrow> None
            | Some (Inl e, s1) \<Rightarrow> Some (Inl e, s1)
            | Some (Inr Break, s1) \<Rightarrow> Some (Inr (), s1)
            | Some (Inr (Continue vars1), s1) \<Rightarrow> expression_loop env call allow n vars1 s1))"

text \<open>
  \<open>EvaluateExpression\<close> with the way to run a handler as a parameter: reset the stacks,
  run the loop, purge the operator stack, check the value stack and return slot 0.
\<close>

definition EvaluateExpression_body ::
  "Externals \<Rightarrow> (Handler \<Rightarrow> LineParser \<Rightarrow> unit result option) \<Rightarrow> nat \<Rightarrow> bool
     \<Rightarrow> LineParser \<Rightarrow> Value result option" where
  "EvaluateExpression_body env call fuel bAllowOneMismatchedCloseBracket s =
     (case expression_loop env call bAllowOneMismatchedCloseBracket fuel
             \<lparr>bracketCount = 0, pendingCommaCount = 0, expected = VALUE_OR_UNARY\<rparr>
             (s\<lparr>m_valueStack := [], m_operatorStack := []\<rparr>) of
        None \<Rightarrow> None
      | Some (Inl e, s1) \<Rightarrow> Some (Inl e, s1)
      | Some (Inr u, s1) \<Rightarrow>
          (case purge call (m_operatorStack s1) s1 of
             None \<Rightarrow> None
           | Some (Inl e, s2) \<Rightarrow> Some (Inl e, s2)
           | Some (Inr u, s2) \<Rightarrow>
               if \<not> length (m_valueStack s2) \<le> 1 then Some (Inl AssertionFailed, s2)
               else if length (m_valueStack s2) = 0 then Some (Inl EmptyExpression, s2)
               else Some (Inr (last (m_valueStack s2)), s2)))"

text \<open>
  \<open>EvaluateExpression\<close>. The fuel bounds the iterations of the loop and the depth of the
  nested evaluations of \<open>EVAL\<close>, which run with the default argument \<open>false\<close>.
\<close>

primrec EvaluateExpression ::
  "Externals \<Rightarrow> nat \<Rightarrow> bool \<Rightarrow> LineParser \<Rightarrow> Value result option" where
  "EvaluateExpression env 0 bAllowOneMismatchedCloseBracket s = None"
| "EvaluateExpression env (Suc n) bAllowOneMismatchedCloseBracket s =
     EvaluateExpression_body env
       (call_handler env (\<lambda>p. EvaluateExpression env n False p)) n
       bAllowOneMismatchedCloseBracket s"

subsection \<open>A concrete environment\<close>

text \<open>
  The examples below run \<open>EvaluateExpression\<close> on concrete lines; for that the
  collaborators need values.

  Modelled from the spec: \<^verbatim>\<open>AdvanceAndCheckEndOfSubStatement\<close> (lineparser.cpp is not
  among the sources): skip whitespace to the next significant character, and return false
  at the end of the sub-statement. The model skips blanks and tabs, and the sub-statement
  ends where the line ends.
\<close>

definition model_Advance :: "bool \<Rightarrow> string \<Rightarrow> nat \<Rightarrow> bool \<times> nat" where
  "model_Advance at_top_level line col =
     (let col1 = col + length (takeWhile (\<lambda>c. c = CHR '' '' \<or> c = CHR 0x09) (drop col line))
      in (col1 < length line, col1))"

text \<open>
  Modelled from the spec: \<^verbatim>\<open>Literals::ParseNumeric\<close> (literals.cpp is not among the
  sources): consume a decimal or hex numeric literal at the cursor. The model reads a
  run of decimal digits, or \<open>&\<close> and a run of hex digits.
\<close>

definition digit_value :: "nat \<Rightarrow> char \<Rightarrow> nat option" where
  "digit_value base c =
     (let k = (of_char c :: nat)
      in if 48 \<le> k \<and> k \<le> 57 then Some (k - 48)
         else if base = 16 \<and> 65 \<le> k \<and> k \<le> 70 then Some (k - 55)
         else if base = 16 \<and> 97 \<le> k \<and> k \<le> 102 then Some (k - 87)
         else None)"

fun read_digits :: "nat \<Rightarrow> string \<Rightarrow> nat \<Rightarrow> nat \<Rightarrow> nat \<times> nat" where
  "read_digits base [] v n = (v, n)"
| "read_digits base (c # cs) v n =
     (case digit_value base c of
        None \<Rightarrow> (v, n)
      | Some d \<Rightarrow> read_digits base cs (v * base + d) (n + 1))"

definition model_ParseNumeric :: "string \<Rightarrow> nat \<Rightarrow> (real \<times> nat) option" where
  "model_ParseNumeric line col =
     (case drop col line of
        [] \<Rightarrow> None
      | c # cs \<Rightarrow>
          if c = CHR ''&'' then
            (if snd (read_digits 16 cs 0 0) = 0 then None
             else Some (real (fst (read_digits 16 cs 0 0)), col + 1 + snd (read_digits 16 cs 0 0)))
          else
            (if snd (read_digits 10 (c # cs) 0 0) = 0 then None
             else Some (real (fst (read_digits 10 (c # cs) 0 0)),
                        col + snd (read_digits 10 (c # cs) 0 0))))"

text \<open>
  Modelled from the spec: \<^verbatim>\<open>GetSymbolName\<close> (lineparser.cpp is not among the sources):
  consume an identifier. The model reads letters, digits, \<open>_\<close> and \<open>$\<close>.
\<close>

definition is_symbol_char :: "char \<Rightarrow> bool" where
  "is_symbol_char c =
     (IsAlpha c \<or> (48 \<le> (of_char c :: nat) \<and> (of_char c :: nat) \<le> 57)
      \<or> c = CHR ''_'' \<or> c = CHR ''$'')"

definition model_GetSymbolName :: "string \<Rightarrow> nat \<Rightarrow> string \<times> nat" where
  "model_GetSymbolName line col =
     (takeWhile is_symbol_char (drop col line),
      col + length (takeWhile is_symbol_char (drop col line)))"

text \<open>
  Modelled from the spec: \<^verbatim>\<open>SkipExpression\<close> (lineparser.cpp is not among the sources):
  move the cursor past the remainder of the expression. The model moves it to the end of
  the line.
\<close>

definition model_SkipExpression :: "int \<Rightarrow> bool \<Rightarrow> string \<Rightarrow> nat \<Rightarrow> nat" where
  "model_SkipExpression brackets allow line col = length line"

text \<open>
  The C library on the reals. \<open>pow\<close> of a whole exponent is a product; \<open>pow\<close> of a
  negative base and a fractional exponent is a domain error, and \<open>pow\<close> of zero and a
  negative exponent is a range error.
\<close>

definition model_pow :: "real \<Rightarrow> real \<Rightarrow> real \<times> errno_code option" where
  "model_pow x y =
     (if y = real_of_int \<lfloor>y\<rfloor> then
        (if 0 \<le> y then (x ^ nat \<lfloor>y\<rfloor>, None)
         else if x = 0 then (0, Some ERANGE)
         else (1 / x ^ nat (- \<lfloor>y\<rfloor>), None))
      else if 0 < x then (x powr y, None)
      else if x = 0 then (if 0 < y then (0, None) else (0, Some ERANGE))
      else (0, Some EDOM))"

definition model_asin :: "real \<Rightarrow> real \<times> errno_code option" where
  "model_asin x = (if - 1 \<le> x \<and> x \<le> 1 then (arcsin x, None) else (0, Some EDOM))"

definition model_acos :: "real \<Rightarrow> real \<times> errno_code option" where
  "model_acos x = (if - 1 \<le> x \<and> x \<le> 1 then (arccos x, None) else (0, Some EDOM))"

definition model_log10 :: "real \<Rightarrow> real \<times> errno_code option" where
  "model_log10 x =
     (if 0 < x then (log 10 x, None) else if x = 0 then (0, Some ERANGE) else (0, Some EDOM))"

definition model_log :: "real \<Rightarrow> real \<times> errno_code option" where
  "model_log x =
     (if 0 < x then (ln x, None) else if x = 0 then (0, Some ERANGE) else (0, Some EDOM))"

definition model_sqrt :: "real \<Rightarrow> real \<times> errno_code option" where
  "model_sqrt x = (if 0 \<le> x then (sqrt x, None) else (0, Some EDOM))"

text \<open>
  The environment of the examples, for a symbol table and a pass. The stack sizes are the
  smallest the spec allows for \<open>MAX_OPERATORS\<close> and four times that for \<open>MAX_VALUES\<close>. The
  clock, the number printer, \<open>strtod\<close> and the random number generator are not modelled:
  no example reaches them.
\<close>

definition test_externals :: "(string \<times> Value) list \<Rightarrow> bool \<Rightarrow> Externals" where
  "test_externals symbols first_pass =
     \<lparr>MAX_VALUES = 128,
      MAX_OPERATORS = 32,
      AdvanceAndCheckEndOfSubStatement = model_Advance,
      ParseNumeric = model_ParseNumeric,
      GetSymbolName = model_GetSymbolName,
      GetSymbolValue = map_of symbols,
      GetPC = 0,
      IsFirstPass = first_pass,
      SkipExpression = model_SkipExpression,
      strftime_assembly_time = (\<lambda>fmt. []),
      PrintNumber = (\<lambda>x. []),
      beebasm_rand = (\<lambda>r. (0, r)),
      BEEBASM_RAND_MAX = 0,
      c_pow = model_pow,
      c_sin = (\<lambda>x. (sin x, None)),
      c_cos = (\<lambda>x. (cos x, None)),
      c_tan = (\<lambda>x. (tan x, None)),
      c_asin = model_asin,
      c_acos = model_acos,
      c_atan = (\<lambda>x. (arctan x, None)),
      c_log10 = model_log10,
      c_log = model_log,
      c_exp = (\<lambda>x. (exp x, None)),
      c_sqrt = model_sqrt,
      c_strtod = (\<lambda>t. (0, None))\<rparr>"

text \<open>A parser at the start of a line, with \<^verbatim>\<open>errno\<close> clear.\<close>

definition parser_on :: "string \<Rightarrow> LineParser" where
  "parser_on line =
     \<lparr>m_line = line, m_column = 0, m_valueStack = [], m_operatorStack = [],
      errno = ENONE, rand_state = 0\<rparr>"

subsection \<open>The spec's words for shifts and comparisons\<close>

text \<open>
  The shift operators as the spec describes them, on a 32-bit value \<open>v\<close> and a shift
  amount \<open>s\<close>: the result is \<open>0\<close> if \<open>|s| > 31\<close>; \<open><<\<close> with \<open>s > 0\<close> is a logical left shift
  and with \<open>s < 0\<close> an arithmetic right shift by \<open>|s|\<close>; \<open>>>\<close> with \<open>s > 0\<close> is an arithmetic
  right shift and with \<open>s < 0\<close> a logical left shift by \<open>|s|\<close>; \<open>s = 0\<close> leaves the value
  unchanged.
\<close>

definition ShiftLeft_spec :: "32 word \<Rightarrow> int \<Rightarrow> 32 word" where
  "ShiftLeft_spec v s =
     (if \<bar>s\<bar> > 31 then 0
      else if s > 0 then push_bit (nat s) v
      else if s < 0 then signed_drop_bit (nat \<bar>s\<bar>) v
      else v)"

definition ShiftRight_spec :: "32 word \<Rightarrow> int \<Rightarrow> 32 word" where
  "ShiftRight_spec v s =
     (if \<bar>s\<bar> > 31 then 0
      else if s > 0 then signed_drop_bit (nat s) v
      else if s < 0 then push_bit (nat \<bar>s\<bar>) v
      else v)"

text \<open>
  The order of two values of the same tag as the spec describes it: numbers in their
  natural order, strings lexicographically over unsigned bytes.
\<close>

fun value_less :: "Value \<Rightarrow> Value \<Rightarrow> bool" where
  "value_less (NumberValue x) (NumberValue y) = (x < y)"
| "value_less (StringValue a) (StringValue b) =
     ((map of_char a :: nat list, map of_char b) \<in> lexord {(m, n). m < n})"
| "value_less (NumberValue x) (StringValue b) = False"
| "value_less (StringValue a) (NumberValue y) = False"

section \<open>Integer coercion and shifts\<close>

lemma sint_neg_iff_bit31: "sint (v :: 32 word) < 0 \<longleftrightarrow> bit v 31"
  using bit_last_iff [of v] by simp

lemma ArithmeticShiftRight_signed_drop_bit:
  "0 < n \<Longrightarrow> n \<le> 31 \<Longrightarrow> ArithmeticShiftRight v n = signed_drop_bit n v"
  unfolding ArithmeticShiftRight_def Let_def sint_neg_iff_bit31
  by (rule bit_word_eqI) (auto simp: bit_simps bit_signed_drop_bit_iff dest: bit_imp_le_length)








section \<open>Comparisons\<close>

lemma CompareBytes_less: "CompareBytes a b < 0 \<longleftrightarrow> (map of_char a :: nat list, map of_char b) \<in> lexord {(m, n). m < n}"
  by (induction a b rule: CompareBytes.induct) auto

lemma CompareBytes_eq: "CompareBytes a b = 0 \<longleftrightarrow> a = b"
  by (induction a b rule: CompareBytes.induct) auto

lemma CompareBytes_greater: "CompareBytes a b > 0 \<longleftrightarrow> (map of_char b :: nat list, map of_char a) \<in> lexord {(m, n). m < n}"
  by (induction a b rule: CompareBytes.induct) auto

lemma Compare_same_tag:
  "IsNumber a = IsNumber b \<Longrightarrow>
   \<exists>c. Compare a b = Inr c \<and> (c < 0 \<longleftrightarrow> value_less a b) \<and> (c = 0 \<longleftrightarrow> a = b)
       \<and> (c > 0 \<longleftrightarrow> value_less b a)"
  by (cases a; cases b)
     (auto simp: IsNumber_def CompareBytes_less CompareBytes_eq CompareBytes_greater)

lemma EvalComparison_same_tag:
  assumes "m_valueStack s = b # a # rest" "IsNumber a = IsNumber b"
  shows "\<exists>c. Compare a b = Inr c \<and> (c < 0 \<longleftrightarrow> value_less a b) \<and> (c = 0 \<longleftrightarrow> a = b)
       \<and> (c > 0 \<longleftrightarrow> value_less b a) \<and>
    (\<forall>test. EvalComparison test s = (Inr (), s\<lparr>m_valueStack := NumberValue (if test c then - 1 else 0) # rest\<rparr>))"
  using assms Compare_same_tag [of a b]
  by (auto simp: EvalComparison_def StackTopTwoValues_def store2_def)

lemma EvalComparison_mixed:
  assumes "m_valueStack s = b # a # rest" "IsNumber a \<noteq> IsNumber b"
  shows "EvalComparison test s = (Inl TypeMismatch, s)"
  using assms by (auto simp: EvalComparison_def StackTopTwoValues_def store2_def)

lemma ConvertDoubleToInt_minus_one: "ConvertDoubleToInt (- 1) = Inr (- 1)"
  by (simp add: ConvertDoubleToInt_def INT_MIN_def INT_MAX_def UINT_MAX_def
        static_cast_int_def trunc_toward_zero_def ceiling_minus)

lemma ConvertDoubleToInt_zero: "ConvertDoubleToInt 0 = Inr 0"
  by (simp add: ConvertDoubleToInt_def INT_MIN_def INT_MAX_def UINT_MAX_def
        static_cast_int_def trunc_toward_zero_def)

lemma EvalOr_truth:
  "p \<or> q \<Longrightarrow>
   EvalOr (s\<lparr>m_valueStack := NumberValue (if q then - 1 else 0) # NumberValue (if p then - 1 else 0) # rest\<rparr>)
     = (Inr (), s\<lparr>m_valueStack := NumberValue (- 1) # rest\<rparr>)"
  by (auto simp: EvalOr_def StackTopTwoInts_def StackTopTwoNumbers_def IsNumber_def GetNumber_def
      ConvertDoubleToInt_minus_one ConvertDoubleToInt_zero store2_def double_of_int_def)

text \<open>
  C4. Each of the six comparison handlers, applied to two values of the same tag, stores
  exactly \<open>-1\<close> when the comparison holds and \<open>0\<close> when it does not, and raises
  \<open>TypeMismatch\<close> when the tags differ. So \<open>(a=b) OR (a<>b)\<close> is \<open>-1\<close>: the handler of \<open>OR\<close>
  on the results of \<open>=\<close> and \<open><>\<close> stores \<open>-1\<close>.
\<close>

theorem comparisons_minus_one_or_zero:
  assumes "m_valueStack s = b # a # rest"
  shows "(IsNumber a = IsNumber b \<longrightarrow>
            EvalEqual s = (Inr (), s\<lparr>m_valueStack := NumberValue (if a = b then - 1 else 0) # rest\<rparr>)
          \<and> EvalNotEqual s = (Inr (), s\<lparr>m_valueStack := NumberValue (if a \<noteq> b then - 1 else 0) # rest\<rparr>)
          \<and> EvalLessThan s = (Inr (), s\<lparr>m_valueStack := NumberValue (if value_less a b then - 1 else 0) # rest\<rparr>)
          \<and> EvalLessThanOrEqual s
              = (Inr (), s\<lparr>m_valueStack := NumberValue (if value_less a b \<or> a = b then - 1 else 0) # rest\<rparr>)
          \<and> EvalMoreThan s = (Inr (), s\<lparr>m_valueStack := NumberValue (if value_less b a then - 1 else 0) # rest\<rparr>)
          \<and> EvalMoreThanOrEqual s
              = (Inr (), s\<lparr>m_valueStack := NumberValue (if value_less b a \<or> a = b then - 1 else 0) # rest\<rparr>)
          \<and> EvalOr (s\<lparr>m_valueStack := NumberValue (if a \<noteq> b then - 1 else 0)
                                        # NumberValue (if a = b then - 1 else 0) # rest\<rparr>)
              = (Inr (), s\<lparr>m_valueStack := NumberValue (- 1) # rest\<rparr>))
       \<and> (IsNumber a \<noteq> IsNumber b \<longrightarrow>
            EvalEqual s = (Inl TypeMismatch, s) \<and> EvalNotEqual s = (Inl TypeMismatch, s)
          \<and> EvalLessThan s = (Inl TypeMismatch, s) \<and> EvalLessThanOrEqual s = (Inl TypeMismatch, s)
          \<and> EvalMoreThan s = (Inl TypeMismatch, s) \<and> EvalMoreThanOrEqual s = (Inl TypeMismatch, s))"
proof (cases "IsNumber a = IsNumber b")
  case True
  from EvalComparison_same_tag [OF assms True] obtain c where
    c: "(c < 0 \<longleftrightarrow> value_less a b)" "(c = 0 \<longleftrightarrow> a = b)" "(c > 0 \<longleftrightarrow> value_less b a)"
    and run: "\<And>test. EvalComparison test s
                = (Inr (), s\<lparr>m_valueStack := NumberValue (if test c then - 1 else 0) # rest\<rparr>)"
    by blast
  have le: "c \<le> 0 \<longleftrightarrow> value_less a b \<or> a = b" and ge: "c \<ge> 0 \<longleftrightarrow> value_less b a \<or> a = b"
    using c by auto
  have or: "EvalOr (s\<lparr>m_valueStack := NumberValue (if a \<noteq> b then - 1 else 0)
                                        # NumberValue (if a = b then - 1 else 0) # rest\<rparr>)
              = (Inr (), s\<lparr>m_valueStack := NumberValue (- 1) # rest\<rparr>)"
    by (rule EvalOr_truth) simp
  show ?thesis
    using True or
    by (simp add: EvalEqual_def EvalNotEqual_def EvalLessThan_def EvalLessThanOrEqual_def
        EvalMoreThan_def EvalMoreThanOrEqual_def run c le ge)
next
  case False
  then show ?thesis
    by (simp add: EvalEqual_def EvalNotEqual_def EvalLessThan_def EvalLessThanOrEqual_def
        EvalMoreThan_def EvalMoreThanOrEqual_def EvalComparison_mixed [OF assms])
qed

theorem comparisons_minus_one_or_zero_witness:
  "EvalLessThan (parser_on []\<lparr>m_valueStack := [StringValue ''abd'', StringValue ''abc'']\<rparr>)
     = (Inr (), parser_on []\<lparr>m_valueStack := [NumberValue (- 1)]\<rparr>)
   \<and> EvalEqual (parser_on []\<lparr>m_valueStack := [NumberValue 6, NumberValue 5]\<rparr>)
     = (Inr (), parser_on []\<lparr>m_valueStack := [NumberValue 0]\<rparr>)
   \<and> EvalEqual (parser_on []\<lparr>m_valueStack := [NumberValue 5, StringValue ''5'']\<rparr>)
     = (Inl TypeMismatch, parser_on []\<lparr>m_valueStack := [NumberValue 5, StringValue ''5'']\<rparr>)"
  using comparisons_minus_one_or_zero
      [of "parser_on []\<lparr>m_valueStack := [StringValue ''abd'', StringValue ''abc'']\<rparr>"
          "StringValue ''abd''" "StringValue ''abc''" "[]"]
    comparisons_minus_one_or_zero
      [of "parser_on []\<lparr>m_valueStack := [NumberValue 6, NumberValue 5]\<rparr>"
          "NumberValue 6" "NumberValue 5" "[]"]
    comparisons_minus_one_or_zero
      [of "parser_on []\<lparr>m_valueStack := [NumberValue 5, StringValue ''5'']\<rparr>"
          "NumberValue 5" "StringValue ''5''" "[]"]
  by (simp add: IsNumber_def parser_on_def)

section \<open>Unary plus and minus\<close>

text \<open>
  C9. Unary \<open>+\<close> is the identity on a value of either tag: on a string it succeeds and
  leaves the string; it only checks that the value stack is not empty. Unary \<open>-\<close> on a
  string raises \<open>TypeMismatch\<close>.
\<close>

theorem posate_identity_negate_type_error:
  "EvalPosate (s\<lparr>m_valueStack := v # rest\<rparr>) = (Inr (), s\<lparr>m_valueStack := v # rest\<rparr>)
   \<and> EvalPosate (s\<lparr>m_valueStack := StringValue a # rest\<rparr>)
       = (Inr (), s\<lparr>m_valueStack := StringValue a # rest\<rparr>)
   \<and> EvalPosate (s\<lparr>m_valueStack := []\<rparr>) = (Inl MissingValue, s\<lparr>m_valueStack := []\<rparr>)
   \<and> EvalNegate (s\<lparr>m_valueStack := StringValue a # rest\<rparr>)
       = (Inl TypeMismatch, s\<lparr>m_valueStack := StringValue a # rest\<rparr>)
   \<and> EvalNegate (s\<lparr>m_valueStack := NumberValue x # rest\<rparr>)
       = (Inr (), s\<lparr>m_valueStack := NumberValue (- x) # rest\<rparr>)"
  by (simp add: EvalPosate_def EvalNegate_def StackTopNumber_def IsNumber_def GetNumber_def
      store1_def)

theorem posate_identity_negate_type_error_witness:
  "EvalPosate (parser_on []\<lparr>m_valueStack := [StringValue ''abc'']\<rparr>)
     = (Inr (), parser_on []\<lparr>m_valueStack := [StringValue ''abc'']\<rparr>)
   \<and> EvalNegate (parser_on []\<lparr>m_valueStack := [StringValue ''abc'']\<rparr>)
     = (Inl TypeMismatch, parser_on []\<lparr>m_valueStack := [StringValue ''abc'']\<rparr>)"
  using posate_identity_negate_type_error
      [where s = "parser_on []" and v = "StringValue ''abc''" and rest = "[]" and a = "''abc''"]
  by simp


lemma cvt_small [simp]:
  "ConvertDoubleToInt 4660 = Inr 4660" "ConvertDoubleToInt 1 = Inr 1" "ConvertDoubleToInt 4 = Inr 4"
  "ConvertDoubleToInt 3 = Inr 3" "ConvertDoubleToInt (- 1) = Inr (- 1)"
  by (simp_all add: ConvertDoubleToInt_def INT_MIN_def INT_MAX_def UINT_MAX_def
        static_cast_int_def trunc_toward_zero_def ceiling_minus)


section \<open>High and low byte\<close>

lemma sint_small: "uint (w :: 32 word) < 2147483648 \<Longrightarrow> sint w = uint w"
proof -
  have "- (2 ^ 31) \<le> uint w"
    by (rule order_trans [of _ 0]) simp_all
  moreover assume "uint w < 2147483648"
  ultimately have "signed_take_bit 31 (uint w) = uint w"
    by (intro signed_take_bit_int_eq_self) simp_all
  then show ?thesis
    by (simp add: sint_uint)
qed

lemma and_FFFF: "(i :: 32 word) AND 0xFFFF = take_bit 16 i"
  using take_bit_eq_mask [of 16 i] by (simp add: mask_eq_exp_minus_1)

lemma and_FF: "(i :: 32 word) AND 0xFF = take_bit 8 i"
  using take_bit_eq_mask [of 8 i] by (simp add: mask_eq_exp_minus_1)

lemma take_bit_int_bound: "take_bit n (k :: int) < 2 ^ n" "0 \<le> take_bit n k"
  by simp_all

lemma sint_and_FFFF: "sint ((i :: 32 word) AND 0xFFFF) = take_bit 16 (uint i)"
proof -
  have "uint (take_bit 16 i) = take_bit 16 (uint i)"
    by (simp add: unsigned_take_bit_eq)
  moreover have "take_bit 16 (uint i) < 2 ^ 16"
    by (rule take_bit_int_bound)
  ultimately show ?thesis
    by (simp add: and_FFFF sint_small)
qed

lemma sint_and_FF: "sint ((i :: 32 word) AND 0xFF) = take_bit 8 (uint i)"
proof -
  have "uint (take_bit 8 i) = take_bit 8 (uint i)"
    by (simp add: unsigned_take_bit_eq)
  moreover have "take_bit 8 (uint i) < 2 ^ 8"
    by (rule take_bit_int_bound)
  ultimately show ?thesis
    by (simp add: and_FF sint_small)
qed

lemma sint_hi_byte:
  "sint (drop_bit 8 ((i :: 32 word) AND 0xFFFF)) = drop_bit 8 (take_bit 16 (uint i))"
proof -
  have u: "uint (drop_bit 8 (take_bit 16 i)) = drop_bit 8 (take_bit 16 (uint i))"
    by (simp add: unsigned_drop_bit_eq unsigned_take_bit_eq)
  have "take_bit 16 (uint i) < 2 ^ 16"
    by (rule take_bit_int_bound)
  then have "drop_bit 8 (take_bit 16 (uint i)) < 2 ^ 16"
    by (simp add: drop_bit_eq_div)
  then show ?thesis
    using u by (simp add: and_FFFF sint_small)
qed

lemma hi_lo_int: "drop_bit 8 (take_bit 16 (u :: int)) * 256 + take_bit 8 u = take_bit 16 u"
proof -
  have "push_bit 8 (drop_bit 8 (take_bit 16 u)) + take_bit 8 (take_bit 16 u) = take_bit 16 u"
    by (rule bits_ident)
  then show ?thesis
    by (simp add: push_bit_eq_mult)
qed

text \<open>
  C6. For an integer-coercible number \<open>x\<close>, with \<open>i\<close> its 32-bit integer, \<open>HI(x)\<close> is
  \<open>(i & 0xFFFF) >> 8\<close> and \<open>LO(x)\<close> is \<open>i & 0xFF\<close>; and \<open>HI(x) * 256 + LO(x)\<close> is the number
  that \<open>x AND &FFFF\<close> evaluates to.
\<close>

theorem hi_lo_recombine:
  assumes "ConvertDoubleToInt x = Inr i" and "m_valueStack s = NumberValue x # rest"
  shows "EvalHi s = (Inr (), s\<lparr>m_valueStack :=
                        NumberValue (real_of_int (sint (drop_bit 8 (i AND 0xFFFF)))) # rest\<rparr>)
       \<and> EvalLo s = (Inr (), s\<lparr>m_valueStack := NumberValue (real_of_int (sint (i AND 0xFF))) # rest\<rparr>)
       \<and> EvalAnd (s\<lparr>m_valueStack := NumberValue 65535 # NumberValue x # rest\<rparr>)
           = (Inr (), s\<lparr>m_valueStack := NumberValue (real_of_int (sint (i AND 0xFFFF))) # rest\<rparr>)
       \<and> real_of_int (sint (drop_bit 8 (i AND 0xFFFF))) * 256 + real_of_int (sint (i AND 0xFF))
           = real_of_int (sint (i AND 0xFFFF))"
proof -
  have k: "ConvertDoubleToInt 65535 = Inr 65535"
    by (simp add: ConvertDoubleToInt_def INT_MIN_def INT_MAX_def UINT_MAX_def
        static_cast_int_def trunc_toward_zero_def)
  have hi: "EvalHi s = (Inr (), s\<lparr>m_valueStack :=
                        NumberValue (real_of_int (sint (drop_bit 8 (i AND 0xFFFF)))) # rest\<rparr>)"
    using assms
    by (simp add: EvalHi_def StackTopInt_def StackTopNumber_def IsNumber_def GetNumber_def
        store1_def double_of_int_def)
  have lo: "EvalLo s = (Inr (), s\<lparr>m_valueStack := NumberValue (real_of_int (sint (i AND 0xFF))) # rest\<rparr>)"
    using assms
    by (simp add: EvalLo_def StackTopInt_def StackTopNumber_def IsNumber_def GetNumber_def
        store1_def double_of_int_def)
  have an: "EvalAnd (s\<lparr>m_valueStack := NumberValue 65535 # NumberValue x # rest\<rparr>)
           = (Inr (), s\<lparr>m_valueStack := NumberValue (real_of_int (sint (i AND 0xFFFF))) # rest\<rparr>)"
    using assms(1) k
    by (simp add: EvalAnd_def StackTopTwoInts_def StackTopTwoNumbers_def IsNumber_def
        GetNumber_def store2_def double_of_int_def)
  have h: "sint (drop_bit 8 (i AND 0xFFFF)) * 256 + sint (i AND 0xFF) = sint (i AND 0xFFFF)"
    by (simp only: sint_hi_byte sint_and_FF sint_and_FFFF hi_lo_int)
  have id: "real_of_int (sint (drop_bit 8 (i AND 0xFFFF))) * 256 + real_of_int (sint (i AND 0xFF))
           = real_of_int (sint (i AND 0xFFFF))"
    using arg_cong [OF h, of real_of_int] by (simp only: of_int_add of_int_mult of_int_numeral)
  from hi lo an id show ?thesis by blast
qed

theorem hi_lo_recombine_witness:
  "EvalHi (parser_on []\<lparr>m_valueStack := [NumberValue 4660]\<rparr>)
     = (Inr (), parser_on []\<lparr>m_valueStack := [NumberValue 18]\<rparr>)
   \<and> EvalLo (parser_on []\<lparr>m_valueStack := [NumberValue 4660]\<rparr>)
     = (Inr (), parser_on []\<lparr>m_valueStack := [NumberValue 52]\<rparr>)
   \<and> EvalAnd (parser_on []\<lparr>m_valueStack := [NumberValue 65535, NumberValue 4660]\<rparr>)
     = (Inr (), parser_on []\<lparr>m_valueStack := [NumberValue 4660]\<rparr>)"
  using hi_lo_recombine [of 4660 4660 "parser_on []\<lparr>m_valueStack := [NumberValue 4660]\<rparr>" "[]"]
  by (simp add: parser_on_def)


section \<open>Shift operators\<close>

lemma shift_left_refines:
  "(if sint shift > 31 \<or> sint shift < - 31 then 0
    else if sint shift > 0 then LogicalShiftLeft val (nat (sint shift))
    else if sint shift = 0 then val
    else ArithmeticShiftRight val (nat (- sint shift))) = ShiftLeft_spec val (sint shift)"
  by (auto simp: ShiftLeft_spec_def LogicalShiftLeft_def ArithmeticShiftRight_signed_drop_bit
      abs_if)

lemma shift_right_refines:
  "(if sint shift > 31 \<or> sint shift < - 31 then 0
    else if sint shift > 0 then ArithmeticShiftRight val (nat (sint shift))
    else if sint shift = 0 then val
    else LogicalShiftLeft val (nat (- sint shift))) = ShiftRight_spec val (sint shift)"
  by (auto simp: ShiftRight_spec_def LogicalShiftLeft_def ArithmeticShiftRight_signed_drop_bit
      abs_if)

lemma ArithmeticShiftRight_bit:
  assumes "0 < n" "n \<le> 31" "i < 32"
  shows "bit (ArithmeticShiftRight v n) i = (if i + n < 32 then bit v (i + n) else sint v < 0)"
  unfolding ArithmeticShiftRight_def Let_def sint_neg_iff_bit31
  using assms by (auto simp: bit_simps add.commute dest: bit_imp_le_length)

text \<open>
  C2. On two integer-coercible operands, with \<open>val\<close> and \<open>shift\<close> their 32-bit integers,
  \<open><<\<close> and \<open>>>\<close> store the 32-bit result that the spec describes
  (\<open>ShiftLeft_spec\<close>, \<open>ShiftRight_spec\<close>). The arithmetic right shift of the source is the
  signed shift: it divides the signed value by \<open>2 ^ n\<close> rounding down, and the bits it
  shifts in at the top are ones exactly when the value is negative.
\<close>

theorem shifts_as_specified:
  assumes "ConvertDoubleToInt a = Inr val" and "ConvertDoubleToInt b = Inr shift"
    and "m_valueStack s = NumberValue b # NumberValue a # rest"
  shows "EvalShiftLeft s
           = (Inr (), s\<lparr>m_valueStack :=
                NumberValue (real_of_int (sint (ShiftLeft_spec val (sint shift)))) # rest\<rparr>)
       \<and> EvalShiftRight s
           = (Inr (), s\<lparr>m_valueStack :=
                NumberValue (real_of_int (sint (ShiftRight_spec val (sint shift)))) # rest\<rparr>)
       \<and> (\<forall>n. 0 < n \<and> n \<le> 31 \<longrightarrow>
             ArithmeticShiftRight val n = signed_drop_bit n val
             \<and> sint (ArithmeticShiftRight val n) = sint val div 2 ^ n
             \<and> (\<forall>i < 32. bit (ArithmeticShiftRight val n) i
                    = (if i + n < 32 then bit val (i + n) else sint val < 0)))"
proof -
  have l: "EvalShiftLeft s
           = (Inr (), s\<lparr>m_valueStack :=
                NumberValue (real_of_int (sint (ShiftLeft_spec val (sint shift)))) # rest\<rparr>)"
    using assms
    by (simp add: EvalShiftLeft_def StackTopTwoInts_def StackTopTwoNumbers_def IsNumber_def
        GetNumber_def store2_def double_of_int_def shift_left_refines del: One_nat_def)
  have r: "EvalShiftRight s
           = (Inr (), s\<lparr>m_valueStack :=
                NumberValue (real_of_int (sint (ShiftRight_spec val (sint shift)))) # rest\<rparr>)"
    using assms
    by (simp add: EvalShiftRight_def StackTopTwoInts_def StackTopTwoNumbers_def IsNumber_def
        GetNumber_def store2_def double_of_int_def shift_right_refines)
  have a: "\<forall>n. 0 < n \<and> n \<le> 31 \<longrightarrow>
             ArithmeticShiftRight val n = signed_drop_bit n val
             \<and> sint (ArithmeticShiftRight val n) = sint val div 2 ^ n
             \<and> (\<forall>i < 32. bit (ArithmeticShiftRight val n) i
                    = (if i + n < 32 then bit val (i + n) else sint val < 0))"
    using ArithmeticShiftRight_bit [of _ _ val]
    by (simp add: ArithmeticShiftRight_signed_drop_bit sint_signed_drop_bit_eq drop_bit_eq_div)
  from l r a show ?thesis by blast
qed


theorem shifts_as_specified_witness:
  "EvalShiftRight (parser_on []\<lparr>m_valueStack := [NumberValue 1, NumberValue (- 1)]\<rparr>)
     = (Inr (), parser_on []\<lparr>m_valueStack := [NumberValue (- 1)]\<rparr>)
   \<and> EvalShiftLeft (parser_on []\<lparr>m_valueStack := [NumberValue 4, NumberValue 1]\<rparr>)
     = (Inr (), parser_on []\<lparr>m_valueStack := [NumberValue 16]\<rparr>)
   \<and> EvalShiftLeft (parser_on []\<lparr>m_valueStack := [NumberValue (- 1), NumberValue (- 1)]\<rparr>)
     = (Inr (), parser_on []\<lparr>m_valueStack := [NumberValue (- 1)]\<rparr>)"
  using shifts_as_specified [of "- 1" "- 1" 1 1
           "parser_on []\<lparr>m_valueStack := [NumberValue 1, NumberValue (- 1)]\<rparr>" "[]"]
    shifts_as_specified [of 1 1 4 4
           "parser_on []\<lparr>m_valueStack := [NumberValue 4, NumberValue 1]\<rparr>" "[]"]
    shifts_as_specified [of "- 1" "- 1" "- 1" "- 1"
           "parser_on []\<lparr>m_valueStack := [NumberValue (- 1), NumberValue (- 1)]\<rparr>" "[]"]
  by (simp add: parser_on_def ShiftLeft_spec_def ShiftRight_spec_def)


section \<open>STRING$\<close>

lemma length_Repeat: "length (Repeat text n) = n * length text"
  by (induction n) (simp_all add: Repeat_def)

lemma unat_of_small_count:
  assumes "0 \<le> sint (c :: 32 word)"
  shows "unat c = nat (sint c)"
proof -
  have "sint c < 2 ^ 32"
    using sint_lt [of c] by simp
  then have "take_bit 32 (sint c) = sint c"
    using assms by (intro take_bit_int_eq_self) simp_all
  then have "uint c = sint c"
    using uint_sint [of c] by simp
  then show ?thesis
    using unat_eq_nat_uint [of c] by (simp only:)
qed

text \<open>
  C8, as amended. \<open>STRING$(n, s)\<close> converts \<open>n\<close> with \<open>ConvertDoubleToInt\<close> first: an \<open>n\<close>
  outside \<open>[INT_MIN, UINT_MAX]\<close> raises \<open>OutOfIntegerRange\<close>. For an integer-coercible \<open>n\<close>,
  with \<open>count\<close> its 32-bit integer, it raises \<open>IllegalOperation\<close> iff \<open>count < 0\<close>,
  \<open>count \<ge> 65536\<close>, \<open>len(s) \<ge> 65536\<close> or \<open>count * len(s) \<ge> 65536\<close>; otherwise it stores \<open>s\<close>
  repeated \<open>count\<close> times, and \<open>LEN\<close> of that is \<open>count * LEN(s)\<close>.
\<close>

theorem EvalString_count_checks:
  assumes "m_valueStack s = StringValue text # NumberValue n # rest"
  shows "(\<forall>e. ConvertDoubleToInt n = Inl e \<longrightarrow>
            EvalString s = (Inl OutOfIntegerRange, s\<lparr>m_valueStack := NumberValue n # rest\<rparr>))
       \<and> (\<forall>count. ConvertDoubleToInt n = Inr count \<longrightarrow>
            (fst (EvalString s) = Inl IllegalOperation
               \<longleftrightarrow> sint count < 0 \<or> sint count \<ge> 65536 \<or> length text \<ge> 65536
                   \<or> sint count * int (length text) \<ge> 65536)
          \<and> (\<not> (sint count < 0 \<or> sint count \<ge> 65536 \<or> length text \<ge> 65536
                   \<or> sint count * int (length text) \<ge> 65536) \<longrightarrow>
                EvalString s
                  = (Inr (), s\<lparr>m_valueStack :=
                       StringValue (Repeat text (nat (sint count))) # rest\<rparr>)
              \<and> EvalLen (s\<lparr>m_valueStack :=
                       StringValue (Repeat text (nat (sint count))) # rest\<rparr>)
                  = (Inr (), s\<lparr>m_valueStack :=
                       NumberValue (real_of_int (sint count) * real (length text)) # rest\<rparr>)))"
proof (intro conjI allI impI)
  fix e assume "ConvertDoubleToInt n = Inl e"
  moreover from this have "e = OutOfIntegerRange"
    by (auto simp: ConvertDoubleToInt_def split: if_splits)
  ultimately show "EvalString s = (Inl OutOfIntegerRange, s\<lparr>m_valueStack := NumberValue n # rest\<rparr>)"
    using assms by (simp add: EvalString_def IsNumber_def IsString_def GetNumber_def)
next
  fix count assume c: "ConvertDoubleToInt n = Inr count"
  show "fst (EvalString s) = Inl IllegalOperation
               \<longleftrightarrow> sint count < 0 \<or> sint count \<ge> 65536 \<or> length text \<ge> 65536
                   \<or> sint count * int (length text) \<ge> 65536"
  proof (cases "sint count < 0 \<or> sint count \<ge> 65536 \<or> length text \<ge> 65536")
    case True
    then show ?thesis
      using assms c
      by (auto simp: EvalString_def IsNumber_def IsString_def GetNumber_def GetString_def Let_def)
  next
    case False
    then have u: "unat count = nat (sint count)"
      by (simp add: unat_of_small_count)
    have "nat (sint count) < 65536" "length text < 65536"
      using False by auto
    then have "nat (sint count) * length text < 65536 * 65536"
      by (intro mult_strict_mono) auto
    then have m: "(nat (sint count) * length text) mod 4294967296 = nat (sint count) * length text"
      by simp
    have i: "sint count * int (length text) = int (nat (sint count) * length text)"
      using False by simp
    show ?thesis
      using assms c False
      by (auto simp: EvalString_def IsNumber_def IsString_def GetNumber_def GetString_def Let_def
          u m i store1_def simp del: of_nat_mult)
  qed
next
  fix count assume c: "ConvertDoubleToInt n = Inr count"
    and ok: "\<not> (sint count < 0 \<or> sint count \<ge> 65536 \<or> length text \<ge> 65536
                   \<or> sint count * int (length text) \<ge> 65536)"
  then have u: "unat count = nat (sint count)"
    by (simp add: unat_of_small_count)
  have "nat (sint count) < 65536" "length text < 65536"
    using ok by auto
  then have "nat (sint count) * length text < 65536 * 65536"
    by (intro mult_strict_mono) auto
  then have m: "(nat (sint count) * length text) mod 4294967296 = nat (sint count) * length text"
    by simp
  have i: "sint count * int (length text) = int (nat (sint count) * length text)"
    using ok by simp
  from ok have p: "sint count * int (length text) < 65536"
    by auto
  have lt: "nat (sint count) * length text < 65536"
  proof -
    from p have "int (nat (sint count) * length text) < int 65536"
      unfolding i by simp
    then show ?thesis
      by (simp only: of_nat_less_iff)
  qed
  show "EvalString s
          = (Inr (), s\<lparr>m_valueStack := StringValue (Repeat text (nat (sint count))) # rest\<rparr>)"
    using assms c ok lt
    by (simp add: EvalString_def IsNumber_def IsString_def GetNumber_def GetString_def Let_def
        u m store1_def)
  have "real (nat (sint count)) = real_of_int (sint count)"
    using ok by simp
  then show "EvalLen (s\<lparr>m_valueStack := StringValue (Repeat text (nat (sint count))) # rest\<rparr>)
          = (Inr (), s\<lparr>m_valueStack :=
               NumberValue (real_of_int (sint count) * real (length text)) # rest\<rparr>)"
    by (simp add: EvalLen_def StackTopString_def IsString_def GetString_def store1_def
        length_Repeat)
qed

theorem EvalString_count_checks_witness:
  "EvalString (parser_on []\<lparr>m_valueStack := [StringValue ''ab'', NumberValue 3]\<rparr>)
     = (Inr (), parser_on []\<lparr>m_valueStack := [StringValue ''ababab'']\<rparr>)
   \<and> EvalLen (parser_on []\<lparr>m_valueStack := [StringValue ''ababab'']\<rparr>)
     = (Inr (), parser_on []\<lparr>m_valueStack := [NumberValue 6]\<rparr>)
   \<and> EvalString (parser_on []\<lparr>m_valueStack := [StringValue ''ab'', NumberValue 4294967296]\<rparr>)
     = (Inl OutOfIntegerRange, parser_on []\<lparr>m_valueStack := [NumberValue 4294967296]\<rparr>)"
proof -
  have c: "ConvertDoubleToInt 3 = Inr 3"
    by simp
  have r: "Repeat ''ab'' (nat (sint (3 :: 32 word))) = ''ababab''"
    by (simp add: Repeat_def numeral_3_eq_3)
  have big: "ConvertDoubleToInt 4294967296 = Inl OutOfIntegerRange"
    by (simp add: ConvertDoubleToInt_def INT_MIN_def UINT_MAX_def)
  from c r big
    EvalString_count_checks
      [of "parser_on []\<lparr>m_valueStack := [StringValue ''ab'', NumberValue 3]\<rparr>"
          "''ab''" 3 "[]"]
    EvalString_count_checks
      [of "parser_on []\<lparr>m_valueStack := [StringValue ''ab'', NumberValue 4294967296]\<rparr>"
          "''ab''" 4294967296 "[]"]
  show ?thesis
    by (simp add: parser_on_def)
qed


text \<open>
  C8 as stated fails at \<open>n = 4294967296\<close>: \<open>n \<ge> 65536\<close>, and the error is
  \<open>OutOfIntegerRange\<close>, not \<open>IllegalOperation\<close>.
\<close>

theorem EvalString_count_counterexample:
  "\<not> (fst (EvalString (parser_on []\<lparr>m_valueStack := [StringValue ''a'', NumberValue 4294967296]\<rparr>))
         = Inl IllegalOperation
       \<longleftrightarrow> (4294967296 :: real) < 0 \<or> (4294967296 :: real) \<ge> 65536 \<or> length ''a'' \<ge> 65536
           \<or> (4294967296 :: real) * real (length ''a'') \<ge> 65536)"
  by (simp add: EvalString_def IsNumber_def IsString_def GetNumber_def parser_on_def
      ConvertDoubleToInt_def INT_MIN_def UINT_MAX_def)

section \<open>More fuel changes no result\<close>

lemma call_handler_mono:
  assumes "\<And>p r. nested p = Some r \<Longrightarrow> nested' p = Some r"
    and "call_handler env nested h s = Some r"
  shows "call_handler env nested' h s = Some r"
proof (cases "h = H_EvalEval")
  case True
  with assms(2) show ?thesis
    by (auto simp: EvalEval_def split: sum.splits option.splits prod.splits dest!: assms(1))
next
  case False
  with assms(2) show ?thesis
    by (cases h) simp_all
qed

lemma pop_and_run_mono:
  assumes "\<And>h s r. call h s = Some r \<Longrightarrow> call' h s = Some r"
  shows "pop_and_run call pops ops s = Some r \<Longrightarrow> pop_and_run call' pops ops s = Some r"
proof (induction ops arbitrary: s)
  case Nil
  then show ?case by simp
next
  case (Cons op ops)
  then show ?case
    by (auto split: if_splits option.splits sum.splits prod.splits dest!: assms)
qed

lemma unwind_to_bracket_mono:
  assumes "\<And>h s r. call h s = Some r \<Longrightarrow> call' h s = Some r"
  shows "unwind_to_bracket call ops s = Some r \<Longrightarrow> unwind_to_bracket call' ops s = Some r"
proof (induction ops arbitrary: s)
  case Nil
  then show ?case by simp
next
  case (Cons op ops)
  then show ?case
    by (auto split: if_splits option.splits sum.splits prod.splits dest!: assms)
qed

lemma purge_mono:
  assumes "\<And>h s r. call h s = Some r \<Longrightarrow> call' h s = Some r"
  shows "purge call ops s = Some r \<Longrightarrow> purge call' ops s = Some r"
proof (induction ops arbitrary: s)
  case Nil
  then show ?case by simp
next
  case (Cons op ops)
  then show ?case
    by (auto split: if_splits option.splits sum.splits prod.splits dest!: assms)
qed

lemma option_bind_mono:
  assumes "(case X of None \<Rightarrow> None | Some z \<Rightarrow> F z) = Some r"
    and "\<And>y. X = Some y \<Longrightarrow> X' = Some y"
  shows "(case X' of None \<Rightarrow> None | Some z \<Rightarrow> F z) = Some r"
proof (cases X)
  case None
  with assms(1) show ?thesis by simp
next
  case (Some y)
  with assms show ?thesis by simp
qed

lemma value_or_unary_step_mono:
  assumes "\<And>h s r. call h s = Some r \<Longrightarrow> call' h s = Some r"
    and v: "value_or_unary_step env call allow vars s = Some r"
  shows "value_or_unary_step env call' allow vars s = Some r"
proof (cases "find_token m_gaUnaryOperatorTable s")
  case None
  with v show ?thesis by (simp add: value_or_unary_step_def)
next
  case (Some row)
  define steps_back where "steps_back = (length (token row) > 1 \<and> last (token row) = CHR ''('')"
  define vars1 where
    "vars1 = (if steps_back then vars\<lparr>pendingCommaCount := parameterCount row - 1\<rparr> else vars)"
  define s1 where
    "s1 = s\<lparr>m_column := (if steps_back then m_column s + length (token row) - 1
                          else m_column s + length (token row))\<rparr>"
  have unfold: "value_or_unary_step env c allow vars s =
      (if steps_back \<and> m_line s1 ! m_column s1 \<noteq> CHR ''('' then Some (Inl AssertionFailed, s1)
       else (case handler row of
               Some h \<Rightarrow>
                 (case pop_and_run c (\<lambda>p. precedence row < p) (m_operatorStack s1) s1 of
                    None \<Rightarrow> None
                  | Some z \<Rightarrow> (case z of (Inl e, s2) \<Rightarrow> Some (Inl e, s2)
                               | (Inr u, s2) \<Rightarrow> push_operator env row vars1 s2))
             | None \<Rightarrow>
                 push_operator env (row\<lparr>parameterCount := pendingCommaCount vars1\<rparr>)
                   (vars1\<lparr>pendingCommaCount := 0, bracketCount := bracketCount vars1 + 1\<rparr>)
                   s1))" for c
    unfolding value_or_unary_step_def Some Let_def steps_back_def vars1_def s1_def
    by (simp cong: if_cong option.case_cong)
  show ?thesis
  proof (cases "steps_back \<and> m_line s1 ! m_column s1 \<noteq> CHR ''(''")
    case True
    with v show ?thesis by (simp add: unfold)
  next
    case False
    show ?thesis
    proof (cases "handler row")
      case None
      with v False show ?thesis by (auto simp: unfold)
    next
      case (Some h)
      from v False Some have
        "(case pop_and_run call (\<lambda>p. precedence row < p) (m_operatorStack s1) s1 of
            None \<Rightarrow> None
          | Some z \<Rightarrow> (case z of (Inl e, s2) \<Rightarrow> Some (Inl e, s2)
                       | (Inr u, s2) \<Rightarrow> push_operator env row vars1 s2)) = Some r"
        by (simp add: unfold)
      then have
        "(case pop_and_run call' (\<lambda>p. precedence row < p) (m_operatorStack s1) s1 of
            None \<Rightarrow> None
          | Some z \<Rightarrow> (case z of (Inl e, s2) \<Rightarrow> Some (Inl e, s2)
                       | (Inr u, s2) \<Rightarrow> push_operator env row vars1 s2)) = Some r"
        by (rule option_bind_mono) (rule pop_and_run_mono [of call call', OF assms(1)])
      with False Some show ?thesis by (auto simp: unfold)
    qed
  qed
qed

lemma binary_step_mono:
  assumes "\<And>h s r. call h s = Some r \<Longrightarrow> call' h s = Some r"
    and v: "binary_step env call allow vars s = Some r"
  shows "binary_step env call' allow vars s = Some r"
proof (cases "find_token m_gaBinaryOperatorTable s")
  case None
  with v show ?thesis by (simp add: binary_step_def)
next
  case (Some row)
  define s1 where "s1 = s\<lparr>m_column := m_column s + length (token row)\<rparr>"
  define vars1 where
    "vars1 = (if \<not> token row = '','' then vars\<lparr>bracketCount := bracketCount vars - 1\<rparr> else vars)"
  have unfold: "binary_step env c allow vars s =
      (case handler row of
         Some h \<Rightarrow>
           (case pop_and_run c (\<lambda>p. precedence row \<le> p) (m_operatorStack s1) s1 of
              None \<Rightarrow> None
            | Some z \<Rightarrow> (case z of (Inl e, s2) \<Rightarrow> Some (Inl e, s2)
                         | (Inr u, s2) \<Rightarrow>
                             push_operator env row (vars\<lparr>expected := VALUE_OR_UNARY\<rparr>) s2))
       | None \<Rightarrow>
           (case unwind_to_bracket c (m_operatorStack s1) s1 of
              None \<Rightarrow> None
            | Some z \<Rightarrow>
                (case z of
                   (Inl e, s2) \<Rightarrow> Some (Inl e, s2)
                 | (Inr (Some bracket), s2) \<Rightarrow>
                     if token row = '','' then
                       (if parameterCount bracket = 0 then Some (Inl ParameterCount, s2)
                        else Some (Inr (Continue (vars1\<lparr>expected := VALUE_OR_UNARY\<rparr>)),
                                   s2\<lparr>m_operatorStack :=
                                        bracket\<lparr>parameterCount := parameterCount bracket - 1\<rparr>
                                        # m_operatorStack s2\<rparr>))
                     else
                       (if parameterCount bracket \<noteq> 0 then Some (Inl ParameterCount, s2)
                        else Some (Inr (Continue vars1), s2))
                 | (Inr None, s2) \<Rightarrow>
                     if allow then Some (Inr Break, s2\<lparr>m_column := m_column s2 - 1\<rparr>)
                     else Some (Inl MismatchedParentheses, s2))))" for c
    unfolding binary_step_def Some Let_def s1_def vars1_def
    by (simp cong: if_cong option.case_cong)
  show ?thesis
  proof (cases "handler row")
    case None
    from v None have
      "(case unwind_to_bracket call (m_operatorStack s1) s1 of
              None \<Rightarrow> None
            | Some z \<Rightarrow>
                (case z of
                   (Inl e, s2) \<Rightarrow> Some (Inl e, s2)
                 | (Inr (Some bracket), s2) \<Rightarrow>
                     if token row = '','' then
                       (if parameterCount bracket = 0 then Some (Inl ParameterCount, s2)
                        else Some (Inr (Continue (vars1\<lparr>expected := VALUE_OR_UNARY\<rparr>)),
                                   s2\<lparr>m_operatorStack :=
                                        bracket\<lparr>parameterCount := parameterCount bracket - 1\<rparr>
                                        # m_operatorStack s2\<rparr>))
                     else
                       (if parameterCount bracket \<noteq> 0 then Some (Inl ParameterCount, s2)
                        else Some (Inr (Continue vars1), s2))
                 | (Inr None, s2) \<Rightarrow>
                     if allow then Some (Inr Break, s2\<lparr>m_column := m_column s2 - 1\<rparr>)
                     else Some (Inl MismatchedParentheses, s2))) = Some r"
      by (simp add: unfold)
    then have
      "(case unwind_to_bracket call' (m_operatorStack s1) s1 of
              None \<Rightarrow> None
            | Some z \<Rightarrow>
                (case z of
                   (Inl e, s2) \<Rightarrow> Some (Inl e, s2)
                 | (Inr (Some bracket), s2) \<Rightarrow>
                     if token row = '','' then
                       (if parameterCount bracket = 0 then Some (Inl ParameterCount, s2)
                        else Some (Inr (Continue (vars1\<lparr>expected := VALUE_OR_UNARY\<rparr>)),
                                   s2\<lparr>m_operatorStack :=
                                        bracket\<lparr>parameterCount := parameterCount bracket - 1\<rparr>
                                        # m_operatorStack s2\<rparr>))
                     else
                       (if parameterCount bracket \<noteq> 0 then Some (Inl ParameterCount, s2)
                        else Some (Inr (Continue vars1), s2))
                 | (Inr None, s2) \<Rightarrow>
                     if allow then Some (Inr Break, s2\<lparr>m_column := m_column s2 - 1\<rparr>)
                     else Some (Inl MismatchedParentheses, s2))) = Some r"
      by (rule option_bind_mono) (rule unwind_to_bracket_mono [of call call', OF assms(1)])
    with None show ?thesis by (simp add: unfold)
  next
    case (Some h)
    from v Some have
      "(case pop_and_run call (\<lambda>p. precedence row \<le> p) (m_operatorStack s1) s1 of
              None \<Rightarrow> None
            | Some z \<Rightarrow> (case z of (Inl e, s2) \<Rightarrow> Some (Inl e, s2)
                         | (Inr u, s2) \<Rightarrow>
                             push_operator env row (vars\<lparr>expected := VALUE_OR_UNARY\<rparr>) s2))
         = Some r"
      by (simp add: unfold)
    then have
      "(case pop_and_run call' (\<lambda>p. precedence row \<le> p) (m_operatorStack s1) s1 of
              None \<Rightarrow> None
            | Some z \<Rightarrow> (case z of (Inl e, s2) \<Rightarrow> Some (Inl e, s2)
                         | (Inr u, s2) \<Rightarrow>
                             push_operator env row (vars\<lparr>expected := VALUE_OR_UNARY\<rparr>) s2))
         = Some r"
      by (rule option_bind_mono) (rule pop_and_run_mono [of call call', OF assms(1)])
    with Some show ?thesis by (simp add: unfold)
  qed
qed

lemma loop_body_mono:
  assumes "\<And>h s r. call h s = Some r \<Longrightarrow> call' h s = Some r"
    and "loop_body env call allow vars s = Some r"
  shows "loop_body env call' allow vars s = Some r"
proof (cases "expected vars = VALUE_OR_UNARY")
  case True
  with assms(2) have "value_or_unary_step env call allow vars s = Some r"
    by (simp add: loop_body_def)
  from value_or_unary_step_mono [of call call', OF assms(1) this] True show ?thesis
    by (simp add: loop_body_def)
next
  case False
  with assms(2) have "binary_step env call allow vars s = Some r"
    by (simp add: loop_body_def)
  from binary_step_mono [of call call', OF assms(1) this] False show ?thesis
    by (simp add: loop_body_def)
qed

lemma expression_loop_mono:
  assumes "\<And>h s r. call h s = Some r \<Longrightarrow> call' h s = Some r"
  shows "expression_loop env call allow n vars s = Some r \<Longrightarrow> n \<le> m
    \<Longrightarrow> expression_loop env call' allow m vars s = Some r"
proof (induction n arbitrary: m vars s)
  case 0
  then show ?case by simp
next
  case (Suc n)
  from Suc.prems(2) obtain m' where m: "m = Suc m'" and le: "n \<le> m'"
    by (cases m) auto
  show ?case
  proof (cases "fst (AdvanceAndCheckEndOfSubStatement env (bracketCount vars = 0)
                  (m_line s) (m_column s))")
    case False
    with Suc.prems(1) show ?thesis by (simp add: m Let_def)
  next
    case True
    let ?s0 = "s\<lparr>m_column := snd (AdvanceAndCheckEndOfSubStatement env (bracketCount vars = 0)
                  (m_line s) (m_column s))\<rparr>"
    from Suc.prems(1) True obtain b where b: "loop_body env call allow vars ?s0 = Some b"
      by (auto simp: Let_def split: option.splits)
    have b': "loop_body env call' allow vars ?s0 = Some b"
      by (rule loop_body_mono [of call call', OF assms b])
    show ?thesis
    proof (cases b)
      case (Pair res s1)
      show ?thesis
      proof (cases res)
        case (Inl e)
        with Suc.prems(1) True b b' Pair show ?thesis by (simp add: m Let_def)
      next
        case (Inr f)
        show ?thesis
        proof (cases f)
          case Break
          with Suc.prems(1) True b b' Pair Inr show ?thesis by (simp add: m Let_def)
        next
          case (Continue vars1)
          with Suc.prems(1) True b Pair Inr
          have "expression_loop env call allow n vars1 s1 = Some r"
            by (simp add: Let_def)
          from Suc.IH [OF this le] True b' Pair Inr Continue show ?thesis
            by (simp add: m Let_def)
        qed
      qed
    qed
  qed
qed

lemma EvaluateExpression_body_mono:
  assumes "\<And>h s r. call h s = Some r \<Longrightarrow> call' h s = Some r"
    and "EvaluateExpression_body env call n allow s = Some r" and "n \<le> m"
  shows "EvaluateExpression_body env call' m allow s = Some r"
proof -
  let ?vars = "\<lparr>bracketCount = 0, pendingCommaCount = 0, expected = VALUE_OR_UNARY\<rparr>"
  let ?s = "s\<lparr>m_valueStack := [], m_operatorStack := []\<rparr>"
  from assms(2) obtain l where l: "expression_loop env call allow n ?vars ?s = Some l"
    by (auto simp: EvaluateExpression_body_def split: option.splits)
  have l': "expression_loop env call' allow m ?vars ?s = Some l"
    by (rule expression_loop_mono [of call call', OF assms(1) l assms(3)])
  obtain res s1 where ls: "l = (res, s1)"
    by (cases l)
  show ?thesis
  proof (cases res)
    case (Inl e)
    with assms(2) l l' ls show ?thesis
      by (simp add: EvaluateExpression_body_def)
  next
    case (Inr u)
    with assms(2) l ls obtain q where q: "purge call (m_operatorStack s1) s1 = Some q"
      by (auto simp: EvaluateExpression_body_def split: option.splits)
    have q': "purge call' (m_operatorStack s1) s1 = Some q"
      by (rule purge_mono [of call call', OF assms(1) q])
    from assms(2) l l' ls Inr q q' show ?thesis
      by (simp add: EvaluateExpression_body_def)
  qed
qed

lemma EvaluateExpression_Suc_mono:
  "EvaluateExpression env n allow s = Some r \<Longrightarrow> EvaluateExpression env (Suc n) allow s = Some r"
proof (induction n arbitrary: allow s r)
  case 0
  then show ?case by simp
next
  case (Suc n)
  let ?c = "call_handler env (\<lambda>p. EvaluateExpression env n False p)"
  let ?c' = "call_handler env (\<lambda>p. EvaluateExpression env (Suc n) False p)"
  have c: "?c h s = Some r \<Longrightarrow> ?c' h s = Some r" for h s r
    by (rule call_handler_mono [of "\<lambda>p. EvaluateExpression env n False p"
           "\<lambda>p. EvaluateExpression env (Suc n) False p"]) (rule Suc.IH)
  have b: "EvaluateExpression_body env ?c n allow s = Some r"
    using Suc.prems by (simp only: EvaluateExpression.simps)
  have "EvaluateExpression_body env ?c' (Suc n) allow s = Some r"
  proof (rule EvaluateExpression_body_mono [where call = ?c and n = n])
    show "?c h s = Some r \<Longrightarrow> ?c' h s = Some r" for h s r
      by (rule c)
    show "EvaluateExpression_body env ?c n allow s = Some r"
      by (rule b)
    show "n \<le> Suc n"
      by simp
  qed
  then show ?case
    by (simp only: EvaluateExpression.simps)
qed

lemma EvaluateExpression_fuel_mono:
  "EvaluateExpression env n allow s = Some r \<Longrightarrow> EvaluateExpression env (n + k) allow s = Some r"
proof (induction k)
  case 0
  then show ?case by simp
next
  case (Suc k)
  then have "EvaluateExpression env (Suc (n + k)) allow s = Some r"
    by (intro EvaluateExpression_Suc_mono) simp
  then show ?case by (simp only: add_Suc_right)
qed

section \<open>Running the evaluator on concrete lines\<close>

lemma expression_loop_numeral:
  "expression_loop env call allow (numeral k) vars s =
     (let adv = AdvanceAndCheckEndOfSubStatement env (bracketCount vars = 0)
                  (m_line s) (m_column s);
          s0 = s\<lparr>m_column := snd adv\<rparr>
      in if \<not> fst adv then Some (Inr (), s0)
         else
           (case loop_body env call allow vars s0 of
              None \<Rightarrow> None
            | Some (Inl e, s1) \<Rightarrow> Some (Inl e, s1)
            | Some (Inr Break, s1) \<Rightarrow> Some (Inr (), s1)
            | Some (Inr (Continue vars1), s1) \<Rightarrow>
                expression_loop env call allow (pred_numeral k) vars1 s1))"
  by (simp add: numeral_eq_Suc)

lemma EvaluateExpression_from_body:
  assumes "\<And>nested. EvaluateExpression_body env (call_handler env nested) n allow s = Some r"
  shows "EvaluateExpression env (Suc n + k) allow s = Some r"
proof -
  have "EvaluateExpression env (Suc n) allow s = Some r"
    by (simp only: EvaluateExpression.simps assms)
  then show ?thesis
    by (rule EvaluateExpression_fuel_mono)
qed

lemma test_externals_sel [simp]:
  "MAX_VALUES (test_externals sy fp) = 128"
  "MAX_OPERATORS (test_externals sy fp) = 32"
  "AdvanceAndCheckEndOfSubStatement (test_externals sy fp) = model_Advance"
  "ParseNumeric (test_externals sy fp) = model_ParseNumeric"
  "GetSymbolName (test_externals sy fp) = model_GetSymbolName"
  "GetSymbolValue (test_externals sy fp) = map_of sy"
  "IsFirstPass (test_externals sy fp) = fp"
  "SkipExpression (test_externals sy fp) = model_SkipExpression"
  "c_pow (test_externals sy fp) = model_pow"
  by (simp_all add: test_externals_def)

lemmas run_simps =
  EvaluateExpression_body_def loop_body_def value_or_unary_step_def binary_step_def
  push_operator_def find_token_def m_gaUnaryOperatorTable_def m_gaBinaryOperatorTable_def
  GetValue_def parser_on_def model_Advance_def model_ParseNumeric_def
  digit_value_def ToUpper_def IsAlpha_def Let_def model_GetSymbolName_def is_symbol_char_def
  model_SkipExpression_def expression_loop_numeral
  StackTopTwoNumbers_def StackTopTwoValues_def StackTopNumber_def StackTopString_def
  StackTopInt_def StackTopTwoInts_def
  IsNumber_def IsString_def GetNumber_def GetString_def store2_def store1_def set_errno_def


lemma run_comma:
  "EvaluateExpression_body (test_externals [] False) (call_handler (test_externals [] False) nested)
     19 False (parser_on ''(1,2)'')
   = Some (Inl ParameterCount,
           \<lparr>m_line = ''(1,2)'', m_column = 3, m_valueStack = [NumberValue 1],
            m_operatorStack = [], errno = ENONE, rand_state = 0\<rparr>)"
  by (simp add: run_simps)


lemma run_comma_sum:
  "EvaluateExpression_body (test_externals [] False) (call_handler (test_externals [] False) nested)
     19 False (parser_on ''(1+2,3)'')
   = Some (Inl ParameterCount,
           \<lparr>m_line = ''(1+2,3)'', m_column = 5, m_valueStack = [NumberValue 3],
            m_operatorStack = [], errno = ENONE, rand_state = 0\<rparr>)"
  by (simp add: run_simps EvalAdd_def)

lemma run_open_div:
  "EvaluateExpression_body (test_externals [] False) (call_handler (test_externals [] False) nested)
     19 False (parser_on ''(1/0'')
   = Some (Inl DivisionByZero,
           \<lparr>m_line = ''(1/0'', m_column = 4, m_valueStack = [NumberValue 0, NumberValue 1],
            m_operatorStack = [OP ''('' (- 1) 0 None], errno = ENONE, rand_state = 0\<rparr>)"
  by (simp add: run_simps EvalDivide_def)

lemma run_open:
  "EvaluateExpression_body (test_externals [] False) (call_handler (test_externals [] False) nested)
     19 False (parser_on ''(1+2'')
   = Some (Inl MismatchedParentheses,
           \<lparr>m_line = ''(1+2'', m_column = 4, m_valueStack = [NumberValue 3],
            m_operatorStack = [], errno = ENONE, rand_state = 0\<rparr>)"
  by (simp add: run_simps EvalAdd_def)

lemma run_empty:
  "EvaluateExpression_body (test_externals [] False) (call_handler (test_externals [] False) nested)
     19 False (parser_on ''  '')
   = Some (Inl EmptyExpression,
           \<lparr>m_line = ''  '', m_column = 2, m_valueStack = [],
            m_operatorStack = [], errno = ENONE, rand_state = 0\<rparr>)"
  by (simp add: run_simps)

lemma run_forward_first:
  "EvaluateExpression_body (test_externals [] True) (call_handler (test_externals [] True) nested)
     19 False (parser_on ''FOO+1'')
   = Some (Inl SymbolNotDefined,
           \<lparr>m_line = ''FOO+1'', m_column = 5, m_valueStack = [],
            m_operatorStack = [], errno = ENONE, rand_state = 0\<rparr>)"
  by (simp add: run_simps)

lemma run_forward_second:
  "EvaluateExpression_body (test_externals [] False) (call_handler (test_externals [] False) nested)
     19 False (parser_on ''FOO+1'')
   = Some (Inl SymbolNotDefined,
           \<lparr>m_line = ''FOO+1'', m_column = 3, m_valueStack = [],
            m_operatorStack = [], errno = ENONE, rand_state = 0\<rparr>)"
  by (simp add: run_simps)

section \<open>Associativity of the power operator\<close>





section \<open>A comma inside bare brackets\<close>







section \<open>Forward references\<close>

text \<open>
  C5. In an iteration that reads a value, an error of \<open>GetValue\<close> ends the loop with that
  error. If the error is \<open>SymbolNotDefined\<close> and this is the first pass, the cursor is first
  set to what \<open>SkipExpression(bracketCount, bAllowOneMismatchedCloseBracket)\<close> returns from
  the state that \<open>GetValue\<close> left. In the second pass, and for every other error, the state is
  the one \<open>GetValue\<close> left. Every error of the loop body ends the loop with the same error and
  state, and every error of the loop is the result of \<open>EvaluateExpression\<close>: nothing else is
  caught.
\<close>

theorem forward_reference_skip:
  assumes "AdvanceAndCheckEndOfSubStatement env (bracketCount vars = 0) (m_line s) (m_column s)
             = (True, c)"
    and "expected vars = VALUE_OR_UNARY"
    and "find_token m_gaUnaryOperatorTable (s\<lparr>m_column := c\<rparr>) = None"
    and "length (m_valueStack s) \<noteq> MAX_VALUES env"
    and "GetValue env (s\<lparr>m_column := c\<rparr>) = (Inl e, s1)"
  shows "expression_loop env call allow (Suc n) vars s
           = Some (Inl e,
                   if e = SymbolNotDefined \<and> IsFirstPass env
                   then s1\<lparr>m_column :=
                            SkipExpression env (bracketCount vars) allow (m_line s1) (m_column s1)\<rparr>
                   else s1)
       \<and> (\<forall>vars0 s0 e0 s'.
             fst (AdvanceAndCheckEndOfSubStatement env (bracketCount vars0 = 0)
                    (m_line s0) (m_column s0))
             \<and> loop_body env call allow vars0
                  (s0\<lparr>m_column := snd (AdvanceAndCheckEndOfSubStatement env
                                          (bracketCount vars0 = 0) (m_line s0) (m_column s0))\<rparr>)
                 = Some (Inl e0, s') \<longrightarrow>
             expression_loop env call allow (Suc n) vars0 s0 = Some (Inl e0, s'))
       \<and> (\<forall>m s0 e0 s'.
             expression_loop env call allow m
               \<lparr>bracketCount = 0, pendingCommaCount = 0, expected = VALUE_OR_UNARY\<rparr>
               (s0\<lparr>m_valueStack := [], m_operatorStack := []\<rparr>) = Some (Inl e0, s') \<longrightarrow>
             EvaluateExpression_body env call m allow s0 = Some (Inl e0, s'))"
  using assms
  by (simp add: loop_body_def value_or_unary_step_def EvaluateExpression_body_def)

theorem forward_reference_skip_witness:
  "expression_loop (test_externals [] True) (call_handler (test_externals [] True) (\<lambda>p. None))
     False (Suc 0)
     \<lparr>bracketCount = 0, pendingCommaCount = 0, expected = VALUE_OR_UNARY\<rparr> (parser_on ''FOO+1'')
   = Some (Inl SymbolNotDefined, parser_on ''FOO+1''\<lparr>m_column := 5\<rparr>)
   \<and> expression_loop (test_externals [] False) (call_handler (test_externals [] False) (\<lambda>p. None))
     False (Suc 0)
     \<lparr>bracketCount = 0, pendingCommaCount = 0, expected = VALUE_OR_UNARY\<rparr> (parser_on ''FOO+1'')
   = Some (Inl SymbolNotDefined, parser_on ''FOO+1''\<lparr>m_column := 3\<rparr>)"
proof -
  have adv: "AdvanceAndCheckEndOfSubStatement (test_externals [] fp)
               (bracketCount \<lparr>bracketCount = 0, pendingCommaCount = 0, expected = VALUE_OR_UNARY\<rparr> = 0)
               (m_line (parser_on ''FOO+1'')) (m_column (parser_on ''FOO+1'')) = (True, 0)" for fp
    by (simp add: parser_on_def model_Advance_def)
  have ex: "expected \<lparr>bracketCount = 0, pendingCommaCount = 0, expected = VALUE_OR_UNARY\<rparr>
              = VALUE_OR_UNARY"
    by simp
  have ft: "find_token m_gaUnaryOperatorTable (parser_on ''FOO+1''\<lparr>m_column := 0\<rparr>) = None"
    by (simp add: parser_on_def find_token_def m_gaUnaryOperatorTable_def ToUpper_def)
  have mv: "length (m_valueStack (parser_on ''FOO+1'')) \<noteq> MAX_VALUES (test_externals [] fp)" for fp
    by (simp add: parser_on_def)
  have gv: "GetValue (test_externals [] fp) (parser_on ''FOO+1''\<lparr>m_column := 0\<rparr>)
              = (Inl SymbolNotDefined, parser_on ''FOO+1''\<lparr>m_column := 3\<rparr>)" for fp
    by (simp add: GetValue_def parser_on_def model_ParseNumeric_def digit_value_def IsAlpha_def
        model_GetSymbolName_def is_symbol_char_def)
  from forward_reference_skip [OF adv ex ft mv gv, of True]
    forward_reference_skip [OF adv ex ft mv gv, of False]
  show ?thesis
    by (simp add: parser_on_def model_SkipExpression_def)
qed


lemma comma_example:
  "EvaluateExpression (test_externals [] False) (20 + k) False (parser_on ''(1,2)'')
   = Some (Inl ParameterCount,
           \<lparr>m_line = ''(1,2)'', m_column = 3, m_valueStack = [NumberValue 1],
            m_operatorStack = [], errno = ENONE, rand_state = 0\<rparr>)"
  using EvaluateExpression_from_body [of "test_externals [] False" 19, OF run_comma, of k]
  by simp

lemma comma_after_sum_example:
  "EvaluateExpression (test_externals [] False) (20 + k) False (parser_on ''(1+2,3)'')
   = Some (Inl ParameterCount,
           \<lparr>m_line = ''(1+2,3)'', m_column = 5, m_valueStack = [NumberValue 3],
            m_operatorStack = [], errno = ENONE, rand_state = 0\<rparr>)"
  using EvaluateExpression_from_body [of "test_externals [] False" 19, OF run_comma_sum, of k]
  by simp


lemma forward_reference_first_pass_example:
  "EvaluateExpression (test_externals [] True) (20 + k) False (parser_on ''FOO+1'')
   = Some (Inl SymbolNotDefined,
           \<lparr>m_line = ''FOO+1'', m_column = 5, m_valueStack = [],
            m_operatorStack = [], errno = ENONE, rand_state = 0\<rparr>)"
  using EvaluateExpression_from_body [of "test_externals [] True" 19, OF run_forward_first, of k]
  by simp

lemma forward_reference_second_pass_example:
  "EvaluateExpression (test_externals [] False) (20 + k) False (parser_on ''FOO+1'')
   = Some (Inl SymbolNotDefined,
           \<lparr>m_line = ''FOO+1'', m_column = 3, m_valueStack = [],
            m_operatorStack = [], errno = ENONE, rand_state = 0\<rparr>)"
  using EvaluateExpression_from_body [of "test_externals [] False" 19, OF run_forward_second, of k]
  by simp
end
